theory Spec2Isabelle
  imports Complex_Main "HOL-Library.AList"
begin

section \<open>Python values seen by the skill loader\<close>

text \<open>
  The development follows \<^verbatim>\<open>ovos_workshop/skill_launcher.py\<close>. Python objects
  are kept only as far as the loader looks at them.

  A class is its identity (the address of the class object), its name and its direct
  bases. Two classes are the same object exactly when the terms are equal, so
  \<^verbatim>\<open>obj is c\<close> and the default \<^verbatim>\<open>clazz != candidate\<close> are HOL equality.
\<close>

datatype pyclass = PyClass (class_id: nat) (class_name: string) (bases: "pyclass list")

text \<open>\<^verbatim>\<open>issubclass(c, d)\<close>: \<open>d\<close> is \<open>c\<close> or an ancestor of \<open>c\<close>.\<close>

fun issubclass :: "pyclass \<Rightarrow> pyclass \<Rightarrow> bool" where
  "issubclass (PyClass i n bs) d = (PyClass i n bs = d \<or> list_ex (\<lambda>b. issubclass b d) bs)"

text \<open>
  What a module namespace (or the plugin registry) can hold: a class, a function, or a
  value that is neither callable nor a namespace (\<^verbatim>\<open>None\<close>, a number, a string).
\<close>

datatype pyobj = ClassObj pyclass | FunctionObj nat | ValueObj nat

fun callable :: "pyobj \<Rightarrow> bool" where
  "callable (ClassObj c) = True"
| "callable (FunctionObj f) = True"
| "callable (ValueObj v) = False"

text \<open>
  A module object: its name, the file it was created from and its \<^verbatim>\<open>__dict__\<close> in
  insertion order.
\<close>

record pymodule =
  mod_name :: string
  mod_file :: string
  mod_dict :: "(string \<times> pyobj) list"

text \<open>The argument of \<^verbatim>\<open>get_skill_class\<close>: a plugin's object or a loaded module.\<close>

datatype skill_source = Plugin pyobj | Module pymodule

text \<open>
  Exceptions. \<open>isinstance_Exception\<close> separates what \<^verbatim>\<open>except Exception\<close> catches
  from what only a bare \<^verbatim>\<open>except:\<close> catches.
\<close>

datatype pyexc =
    AttributeError | TypeError | ValueError | ImportError | SkillError nat
  | KeyboardInterrupt | SystemExit

fun isinstance_Exception :: "pyexc \<Rightarrow> bool" where
  "isinstance_Exception KeyboardInterrupt = False"
| "isinstance_Exception SystemExit = False"
| "isinstance_Exception e = True"

datatype level = Debug | Info | Warning | Error | Exception

section \<open>Class resolution\<close>

text \<open>
  \<^verbatim>\<open>get_skill_class\<close>, first loop: the classes of the module's namespace that
  subclass some entry of \<^verbatim>\<open>SKILL_BASE_CLASSES\<close> and are none of them. The base classes
  are imported from modules outside this file, so the list is a parameter.
\<close>

fun collect_candidates :: "pyclass list \<Rightarrow> (string \<times> pyobj) list \<Rightarrow> pyclass list" where
  "collect_candidates B [] = []"
| "collect_candidates B ((name, ClassObj c) # items) =
     (if list_ex (\<lambda>b. issubclass c b) B \<and> \<not> list_ex (\<lambda>b. c = b) B
      then c # collect_candidates B items
      else collect_candidates B items)"
| "collect_candidates B ((name, obj) # items) = collect_candidates B items"

text \<open>
  Second loop: it runs over a copy of the candidates (first argument) and removes from
  the live list (second argument) each candidate of which another live candidate is a
  subclass. \<^verbatim>\<open>list.remove\<close> deletes the first occurrence.
\<close>

fun discard_supertypes :: "pyclass list \<Rightarrow> pyclass list \<Rightarrow> pyclass list" where
  "discard_supertypes [] candidates = candidates"
| "discard_supertypes (candidate # rest) candidates =
     (let others = filter (\<lambda>clazz. clazz \<noteq> candidate) candidates in
      if list_ex (\<lambda>clazz. issubclass clazz candidate) others
      then discard_supertypes rest (remove1 candidate candidates)
      else discard_supertypes rest candidates)"

text \<open>
  The result is the returned object (or \<^verbatim>\<open>None\<close>) and the log records written. A
  value that is neither callable nor a module has no \<^verbatim>\<open>__dict__\<close>.
\<close>

definition get_skill_class ::
  "pyclass list \<Rightarrow> skill_source \<Rightarrow> (pyexc + pyobj option) \<times> (level \<times> string) list" where
  "get_skill_class B skill_module =
     (case skill_module of
        Plugin obj \<Rightarrow>
          (if callable obj then (Inr (Some obj), []) else (Inl AttributeError, []))
      | Module m \<Rightarrow>
          (let candidates = collect_candidates B (mod_dict m);
               candidates = discard_supertypes candidates candidates
           in case candidates of
                [] \<Rightarrow> (Inr None, [])
              | c # cs \<Rightarrow>
                  (Inr (Some (ClassObj c)),
                   (if length candidates > 1
                    then [(Warning, ''Multiple skills found in a single file!'')] else [])
                   @ [(Debug, ''Loading skill class'')])))"

text \<open>
  \<^verbatim>\<open>get_create_skill_function\<close>: the module's \<^verbatim>\<open>create_skill\<close> attribute when it
  exists and is callable. \<^verbatim>\<open>hasattr(None, ...)\<close> is false.
\<close>

definition get_create_skill_function :: "pymodule option \<Rightarrow> pyobj option" where
  "get_create_skill_function skill_module =
     (case skill_module of
        None \<Rightarrow> None
      | Some m \<Rightarrow>
          (case map_of (mod_dict m) ''create_skill'' of
             None \<Rightarrow> None
           | Some f \<Rightarrow> if callable f then Some f else None))"

section \<open>The loader and its collaborators\<close>

type_synonym bus = nat

text \<open>How a skill creator is called: with \<^verbatim>\<open>bus=..., skill_id=...\<close>, or with nothing.\<close>

datatype ctor_args = Modern bus "string option" | Legacy

text \<open>
  A skill object, as far as the loader reads it. The two initialisation flags are
  probed with \<^verbatim>\<open>hasattr\<close>, so each may be absent (\<open>None\<close>).
\<close>

record SkillInstance =
  inst_class :: pyclass
  inst_name :: string
  inst_skill_id :: "string option"
  inst_root_dir :: "string option"
  reload_skill :: bool
  is_fully_initialized :: "bool option"
  priv_is_fully_initialized :: "bool option"

record Message =
  msg_type :: string
  msg_data :: "(string \<times> string option) list"

datatype FileWatcher = FileWatcher (watch_paths: "string option list") (recursive: bool)

text \<open>
  Everything the loader does to the outside, in the order it happens: log records, bus
  messages, calls into skill code, file watchers, module execution.
\<close>

datatype event =
    Log level string
  | Emit Message
  | CallCreator pyobj ctor_args
  | CallStartup SkillInstance bus "string option"
  | CallShutdown SkillInstance
  | WatcherStart FileWatcher
  | WatcherShutdown FileWatcher
  | ExecModule string string
  | GcCollect

text \<open>
  What executing a source file does: it may raise, it binds names in the new module,
  and the imports it performs are registered in \<^verbatim>\<open>sys.modules\<close>.
\<close>

record exec_result =
  raised :: "pyexc option"
  namespace :: "(string \<times> pyobj) list"
  imported :: "(string \<times> pymodule) list"

text \<open>
  The collaborators at the time of a call: the configuration (read again at every
  use), the clock, the file system, the import machinery and the skill author's code.
  \<open>default_shutdown\<close> gives the exception the teardown hook raises, if any.
\<close>

record env =
  SKILL_BASE_CLASSES :: "pyclass list"
  blacklisted_skills :: "string list option"
  debug :: bool
  time :: real
  getrefcount :: "SkillInstance option \<Rightarrow> int"
  path_exists :: "string \<Rightarrow> bool"
  exec_module :: "string \<Rightarrow> (string \<times> pymodule) list \<Rightarrow> exec_result"
  construct :: "pyobj \<Rightarrow> ctor_args \<Rightarrow> pyexc + SkillInstance option"
  startup :: "SkillInstance \<Rightarrow> bus \<Rightarrow> string option \<Rightarrow> pyexc + SkillInstance"
  default_shutdown :: "SkillInstance \<Rightarrow> pyexc option"

text \<open>
  The state: \<^verbatim>\<open>sys.modules\<close> (a dict, in insertion order), the trace of events, and
  the attributes of one \<^verbatim>\<open>SkillLoader\<close>. A leading underscore of the source is written
  \<open>p_\<close>; \<^verbatim>\<open>instance\<close> is \<open>cur_instance\<close>.
\<close>

record state =
  sys_modules :: "(string \<times> pymodule) list"
  trace :: "event list"
  bus :: bus
  p_skill_directory :: "string option"
  p_skill_id :: "string option"
  p_skill_class :: "pyobj option"
  p_loaded :: "bool option"
  load_attempted :: bool
  last_loaded :: real
  cur_instance :: "SkillInstance option"
  active :: bool
  p_watchdog :: "FileWatcher option"
  skill_module :: "pymodule option"

type_synonym 'a result = "(pyexc + 'a) \<times> state"

text \<open>Sequencing: an exception skips the rest and keeps the state reached.\<close>

definition and_then :: "'a result \<Rightarrow> ('a \<Rightarrow> state \<Rightarrow> 'b result) \<Rightarrow> 'b result" where
  "and_then r f = (case r of (Inl e, s) \<Rightarrow> (Inl e, s) | (Inr v, s) \<Rightarrow> f v s)"

definition LOG :: "level \<Rightarrow> string \<Rightarrow> state \<Rightarrow> state" where
  "LOG l msg s = s\<lparr>trace := trace s @ [Log l msg]\<rparr>"

definition emit :: "Message \<Rightarrow> state \<Rightarrow> state" where
  "emit m s = s\<lparr>trace := trace s @ [Emit m]\<rparr>"

definition SkillLoader_init ::
  "(string \<times> pymodule) list \<Rightarrow> bus \<Rightarrow> string option \<Rightarrow> string option \<Rightarrow> state" where
  "SkillLoader_init mods b skill_directory skill_id =
     \<lparr>sys_modules = mods, trace = [], bus = b,
      p_skill_directory = skill_directory, p_skill_id = skill_id, p_skill_class = None,
      p_loaded = None, load_attempted = False, last_loaded = 0, cur_instance = None,
      active = True, p_watchdog = None, skill_module = None\<rparr>"

subsection \<open>Strings and paths\<close>

text \<open>Truth value of a string or \<^verbatim>\<open>None\<close>.\<close>

definition truthy :: "string option \<Rightarrow> bool" where
  "truthy v = (case v of None \<Rightarrow> False | Some x \<Rightarrow> x \<noteq> [])"

definition startswith :: "string \<Rightarrow> string \<Rightarrow> bool" where
  "startswith s p = (take (length p) s = p)"

definition basename :: "string \<Rightarrow> string" where
  "basename p = rev (takeWhile (\<lambda>c. c \<noteq> CHR ''/'') (rev p))"

definition os_path_join :: "string \<Rightarrow> string \<Rightarrow> string" where
  "os_path_join a b =
     (if (case b of [] \<Rightarrow> False | c # cs \<Rightarrow> c = CHR ''/'') then b
      else if a = [] \<or> last a = CHR ''/'' then a @ b
      else a @ ''/'' @ b)"

text \<open>\<^verbatim>\<open>str.replace\<close> for one-character patterns.\<close>

definition replace :: "char \<Rightarrow> char \<Rightarrow> string \<Rightarrow> string" where
  "replace old new s = map (\<lambda>c. if c = old then new else c) s"

definition SKILL_MAIN_MODULE :: string where
  "SKILL_MAIN_MODULE = ''__init__.py''"

subsection \<open>Module loading\<close>

text \<open>
  \<^verbatim>\<open>remove_submodule_refs\<close>: collect the keys under \<^verbatim>\<open>module_name + '.'\<close>, then
  delete each of them.
\<close>

definition remove_submodule_refs :: "string \<Rightarrow> state \<Rightarrow> state" where
  "remove_submodule_refs module_name s =
     (let s = LOG Debug ''Skill module'' s;
          submodules = filter (\<lambda>m. startswith m (module_name @ ''.'')) (map fst (sys_modules s))
      in fold (\<lambda>m s. (LOG Debug ''Removing sys.modules ref'' s)
                        \<lparr>sys_modules := AList.delete m (sys_modules s)\<rparr>) submodules s)"

text \<open>
  \<^verbatim>\<open>load_skill_module\<close>. \<^verbatim>\<open>None.replace\<close> is an AttributeError. The new module is
  registered before it is executed; execution fills that same object, which the second
  update of its entry records.
\<close>

definition load_skill_module :: "env \<Rightarrow> string \<Rightarrow> string option \<Rightarrow> state \<Rightarrow> pymodule result" where
  "load_skill_module E path skill_id s =
     (case skill_id of
        None \<Rightarrow> (Inl AttributeError, s)
      | Some sid \<Rightarrow>
          (let module_name = replace CHR ''.'' CHR ''_'' sid;
               s = remove_submodule_refs module_name s;
               modu = \<lparr>mod_name = module_name, mod_file = path, mod_dict = []\<rparr>;
               s = s\<lparr>sys_modules := AList.update module_name modu (sys_modules s)\<rparr>;
               r = exec_module E path (sys_modules s);
               modu = modu\<lparr>mod_dict := namespace r\<rparr>;
               s = s\<lparr>sys_modules :=
                       fold (\<lambda>(k, m). AList.update k m) (imported r)
                         (AList.update module_name modu (sys_modules s)),
                     trace := trace s @ [ExecModule module_name path]\<rparr>
           in case raised r of Some e \<Rightarrow> (Inl e, s) | None \<Rightarrow> (Inr modu, s)))"

subsection \<open>Exception handlers\<close>

text \<open>\<^verbatim>\<open>except Exception:\<close> and the bare \<^verbatim>\<open>except:\<close>.\<close>

definition catch_Exception :: "'a result \<Rightarrow> (state \<Rightarrow> 'a result) \<Rightarrow> 'a result" where
  "catch_Exception r handler =
     (case r of
        (Inl e, s) \<Rightarrow> if isinstance_Exception e then handler s else (Inl e, s)
      | (Inr v, s) \<Rightarrow> (Inr v, s))"

definition catch_all :: "'a result \<Rightarrow> (state \<Rightarrow> 'a result) \<Rightarrow> 'a result" where
  "catch_all r handler = (case r of (Inl e, s) \<Rightarrow> handler s | (Inr v, s) \<Rightarrow> (Inr v, s))"

subsection \<open>Properties of the loader\<close>

definition loaded :: "state \<Rightarrow> bool option" where
  "loaded s = p_loaded s"

definition skill_directory :: "state \<Rightarrow> string option" where
  "skill_directory s =
     (let skill_dir = p_skill_directory s in
      case cur_instance s of
        Some i \<Rightarrow> if \<not> truthy skill_dir then inst_root_dir i else skill_dir
      | None \<Rightarrow> skill_dir)"

definition skill_id :: "state \<Rightarrow> string option" where
  "skill_id s =
     (let skill_id = p_skill_id s;
          skill_id = (case cur_instance s of
                        Some i \<Rightarrow> if \<not> truthy skill_id then inst_skill_id i else skill_id
                      | None \<Rightarrow> skill_id)
      in if truthy (skill_directory s) \<and> \<not> truthy skill_id
         then map_option basename (skill_directory s)
         else skill_id)"

text \<open>
  \<^verbatim>\<open>skill_class\<close> may call \<^verbatim>\<open>get_skill_class\<close>, whose log records go to the trace.
\<close>

definition skill_class :: "env \<Rightarrow> state \<Rightarrow> pyobj option result" where
  "skill_class E s =
     (let skill_class = p_skill_class s;
          skill_class = (case cur_instance s of
                           Some i \<Rightarrow> if skill_class = None then Some (ClassObj (inst_class i))
                                     else skill_class
                         | None \<Rightarrow> skill_class)
      in case skill_module s of
           Some m \<Rightarrow>
             if skill_class = None
             then (case get_skill_class (SKILL_BASE_CLASSES E) (Module m) of
                     (r, logs) \<Rightarrow> (r, s\<lparr>trace := trace s @ map (\<lambda>(l, t). Log l t) logs\<rparr>))
             else (Inr skill_class, s)
         | None \<Rightarrow> (Inr skill_class, s))"

definition is_blacklisted :: "env \<Rightarrow> state \<Rightarrow> bool" where
  "is_blacklisted E s =
     (let blacklist = (case blacklisted_skills E of None \<Rightarrow> [] | Some b \<Rightarrow> b) in
      case skill_id s of None \<Rightarrow> False | Some i \<Rightarrow> i \<in> set blacklist)"

definition reload_allowed :: "state \<Rightarrow> bool" where
  "reload_allowed s =
     (active s \<and> (case cur_instance s of None \<Rightarrow> True | Some i \<Rightarrow> reload_skill i))"

subsection \<open>Shutdown\<close>

text \<open>
  \<^verbatim>\<open>_execute_instance_shutdown\<close>: the hook runs under \<^verbatim>\<open>except Exception\<close>; the
  reference is dropped after the \<^verbatim>\<open>try\<close> statement.
\<close>

definition p_execute_instance_shutdown :: "env \<Rightarrow> state \<Rightarrow> unit result" where
  "p_execute_instance_shutdown E s =
     and_then
       (catch_Exception
          (case cur_instance s of
             None \<Rightarrow> (Inl AttributeError, s)
           | Some i \<Rightarrow>
               (let s = s\<lparr>trace := trace s @ [CallShutdown i]\<rparr> in
                case default_shutdown E i of
                  Some e \<Rightarrow> (Inl e, s)
                | None \<Rightarrow> (Inr (), LOG Info ''shut down successfully'' s)))
          (\<lambda>s. (Inr (), LOG Exception ''An error occurred while shutting down'' s)))
       (\<lambda>_ s. (Inr (), s\<lparr>cur_instance := None\<rparr>))"

definition p_garbage_collect :: "env \<Rightarrow> state \<Rightarrow> state" where
  "p_garbage_collect E s =
     (let s = s\<lparr>trace := trace s @ [GcCollect]\<rparr>;
          refs = getrefcount E (cur_instance s) - 2
      in if refs > 0 then LOG Warning ''there are still references remaining'' s else s)"

definition p_emit_skill_shutdown_event :: "state \<Rightarrow> state" where
  "p_emit_skill_shutdown_event s =
     emit \<lparr>msg_type = ''mycroft.skills.shutdown'',
           msg_data = [(''path'', skill_directory s), (''id'', skill_id s)]\<rparr> s"

definition p_unload :: "env \<Rightarrow> state \<Rightarrow> unit result" where
  "p_unload E s =
     (let s = (case p_watchdog s of
                 Some w \<Rightarrow> s\<lparr>trace := trace s @ [WatcherShutdown w], p_watchdog := None\<rparr>
               | None \<Rightarrow> s)
      in and_then (p_execute_instance_shutdown E s)
           (\<lambda>_ s. let s = (if debug E then p_garbage_collect E s else s)
                   in (Inr (), p_emit_skill_shutdown_event s)))"

definition unload :: "env \<Rightarrow> state \<Rightarrow> unit result" where
  "unload E s =
     (case cur_instance s of
        Some i \<Rightarrow> p_execute_instance_shutdown E s
      | None \<Rightarrow> (Inr (), s))"

subsection \<open>Loading\<close>

definition p_prepare_for_load :: "state \<Rightarrow> state" where
  "p_prepare_for_load s = s\<lparr>load_attempted := True, cur_instance := None\<rparr>"

definition p_skip_load :: "state \<Rightarrow> state" where
  "p_skip_load s = LOG Info ''is blacklisted - it will not be loaded'' s"

text \<open>
  \<^verbatim>\<open>_load_skill_source\<close>. \<^verbatim>\<open>os.path.join(None, ...)\<close> is a TypeError, raised outside
  the \<^verbatim>\<open>try\<close>.
\<close>

definition p_load_skill_source :: "env \<Rightarrow> state \<Rightarrow> pymodule option result" where
  "p_load_skill_source E s =
     (case skill_directory s of
        None \<Rightarrow> (Inl TypeError, s)
      | Some d \<Rightarrow>
          (let main_file_path = os_path_join d SKILL_MAIN_MODULE in
           if \<not> path_exists E main_file_path
           then (Inr None, LOG Error ''Failed to load due to a missing file.'' s)
           else catch_Exception
                  (and_then (load_skill_module E main_file_path (skill_id s) s)
                     (\<lambda>m s. (Inr (Some m), s)))
                  (\<lambda>s. (Inr None, LOG Exception ''Failed to load skill'' s))))"

text \<open>Calling the creator; \<^verbatim>\<open>None\<close> and plain values are not callable (TypeError).\<close>

definition invoke :: "env \<Rightarrow> pyobj option \<Rightarrow> ctor_args \<Rightarrow> state \<Rightarrow> SkillInstance option result" where
  "invoke E skill_creator args s =
     (case skill_creator of
        None \<Rightarrow> (Inl TypeError, s)
      | Some c \<Rightarrow>
          if callable c
          then (construct E c args, s\<lparr>trace := trace s @ [CallCreator c args]\<rparr>)
          else (Inl TypeError, s))"

text \<open>
  The \<^verbatim>\<open>hasattr\<close> test of \<^verbatim>\<open>_create_skill_instance\<close>: the deprecated public flag
  first, else the private one; reading an absent attribute (or any attribute of
  \<^verbatim>\<open>None\<close>) is an AttributeError.
\<close>

definition read_is_initialized :: "state \<Rightarrow> bool result" where
  "read_is_initialized s =
     (case cur_instance s of
        None \<Rightarrow> (Inl AttributeError, s)
      | Some i \<Rightarrow>
          (case is_fully_initialized i of
             Some v \<Rightarrow> (Inr v, LOG Warning ''Deprecated skill signature!'' s)
           | None \<Rightarrow>
               (case priv_is_fully_initialized i of
                  Some v \<Rightarrow> (Inr v, s)
                | None \<Rightarrow> (Inl AttributeError, s))))"

text \<open>\<^verbatim>\<open>self.instance._startup(self.bus, self.skill_id)\<close>; the hook updates the instance.\<close>

definition call_startup :: "env \<Rightarrow> state \<Rightarrow> unit result" where
  "call_startup E s =
     (case cur_instance s of
        None \<Rightarrow> (Inl AttributeError, s)
      | Some i \<Rightarrow>
          (let sid = skill_id s;
               s = s\<lparr>trace := trace s @ [CallStartup i (bus s) sid]\<rparr>
           in case startup E i (bus s) sid of
                Inl e \<Rightarrow> (Inl e, s)
              | Inr i' \<Rightarrow> (Inr (), s\<lparr>cur_instance := Some i'\<rparr>)))"

definition p_create_skill_instance :: "env \<Rightarrow> pymodule option \<Rightarrow> state \<Rightarrow> bool result" where
  "p_create_skill_instance E skill_module_arg s =
     (let skill_module = (case skill_module_arg of None \<Rightarrow> skill_module s | Some m \<Rightarrow> Some m) in
      and_then
        (catch_Exception
           (and_then
              (case get_create_skill_function skill_module of
                 Some f \<Rightarrow> (Inr (Some f), s)
               | None \<Rightarrow> skill_class E s)
              (\<lambda>skill_creator s.
                 and_then
                   (catch_all
                      (and_then (invoke E skill_creator (Modern (bus s) (skill_id s)) s)
                         (\<lambda>obj s. (Inr (), s\<lparr>cur_instance := obj\<rparr>)))
                      (\<lambda>s. and_then (invoke E skill_creator Legacy s)
                              (\<lambda>obj s. (Inr (), s\<lparr>cur_instance := obj\<rparr>))))
                   (\<lambda>_ s. and_then (read_is_initialized s)
                             (\<lambda>is_initialized s.
                                if \<not> is_initialized then call_startup E s else (Inr (), s)))))
           (\<lambda>s. (Inr (), (LOG Exception ''Skill __init__ failed'' s)\<lparr>cur_instance := None\<rparr>)))
        (\<lambda>_ s. (Inr (cur_instance s \<noteq> None), s)))"

text \<open>
  \<^verbatim>\<open>_communicate_load_status\<close>. In the first branch \<^verbatim>\<open>self.instance.name\<close> is read
  while the message is built; with no instance that is an AttributeError.
\<close>

definition p_communicate_load_status :: "env \<Rightarrow> state \<Rightarrow> unit result" where
  "p_communicate_load_status E s =
     (if loaded s = Some True
      then (case cur_instance s of
              None \<Rightarrow> (Inl AttributeError, s)
            | Some i \<Rightarrow>
                (Inr (),
                 LOG Info ''loaded successfully''
                   (emit \<lparr>msg_type = ''mycroft.skills.loaded'',
                          msg_data = [(''path'', skill_directory s), (''id'', skill_id s),
                                      (''name'', Some (inst_name i))]\<rparr> s)))
      else (let s = emit \<lparr>msg_type = ''mycroft.skills.loading_failure'',
                          msg_data = [(''path'', skill_directory s), (''id'', skill_id s)]\<rparr> s
            in (Inr (),
                if \<not> is_blacklisted E s then LOG Error ''failed to load'' s
                else LOG Info ''not loaded'' s)))"

definition p_start_filewatcher :: "state \<Rightarrow> state" where
  "p_start_filewatcher s =
     (case p_watchdog s of
        None \<Rightarrow>
          (let w = FileWatcher [skill_directory s] True
           in s\<lparr>trace := trace s @ [WatcherStart w], p_watchdog := Some w\<rparr>)
      | Some w \<Rightarrow> s)"

definition p_load :: "env \<Rightarrow> state \<Rightarrow> bool option result" where
  "p_load E s =
     (let s = p_prepare_for_load s in
      and_then
        (if is_blacklisted E s then (Inr (), p_skip_load s)
         else and_then (p_load_skill_source E s)
                (\<lambda>m s. and_then (p_create_skill_instance E None (s\<lparr>skill_module := m\<rparr>))
                          (\<lambda>b s. (Inr (), s\<lparr>p_loaded := Some b\<rparr>))))
        (\<lambda>_ s. and_then (p_communicate_load_status E (s\<lparr>last_loaded := time E\<rparr>))
                  (\<lambda>_ s. let s = p_start_filewatcher s in (Inr (loaded s), s))))"

definition load :: "env \<Rightarrow> state \<Rightarrow> bool option result" where
  "load E s = p_load E (LOG Info ''ATTEMPTING TO LOAD SKILL'' s)"

definition reload :: "env \<Rightarrow> state \<Rightarrow> bool option result" where
  "reload E s =
     (let s = LOG Info ''ATTEMPTING TO RELOAD SKILL'' s in
      case cur_instance s of
        Some i \<Rightarrow>
          if \<not> reload_skill i
          then (Inr (Some False), LOG Info ''skill does not allow reloading!'' s)
          else and_then (p_unload E s) (\<lambda>_ s. p_load E s)
      | None \<Rightarrow> p_load E s)"

definition activate :: "env \<Rightarrow> state \<Rightarrow> unit result" where
  "activate E s = and_then (load E (s\<lparr>active := True\<rparr>)) (\<lambda>_ s. (Inr (), s))"

definition deactivate :: "env \<Rightarrow> state \<Rightarrow> unit result" where
  "deactivate E s = unload E (s\<lparr>active := False\<rparr>)"

definition p_handle_filechange :: "env \<Rightarrow> state \<Rightarrow> unit result" where
  "p_handle_filechange E s =
     (let s = LOG Info ''Skill change detected!'' s in
      catch_Exception
        (if reload_allowed s then and_then (reload E s) (\<lambda>_ s. (Inr (), s)) else (Inr (), s))
        (\<lambda>s. (Inr (), LOG Exception ''Unhandled exception occurred while reloading'' s)))"

text \<open>\<^verbatim>\<open>PluginSkillLoader.load(skill_class)\<close>: no module loading and no file watcher.\<close>

definition PluginSkillLoader_load :: "env \<Rightarrow> pyobj option \<Rightarrow> state \<Rightarrow> bool option result" where
  "PluginSkillLoader_load E skill_class_arg s =
     (let s = LOG Info ''ATTEMPTING TO LOAD PLUGIN SKILL'' s;
          s = s\<lparr>p_skill_class := skill_class_arg\<rparr>;
          s = p_prepare_for_load s
      in and_then
           (if is_blacklisted E s then (Inr (), p_skip_load s)
            else and_then (p_create_skill_instance E None s)
                   (\<lambda>b s. (Inr (), s\<lparr>p_loaded := Some b\<rparr>)))
           (\<lambda>_ s. and_then (p_communicate_load_status E (s\<lparr>last_loaded := time E\<rparr>))
                     (\<lambda>_ s. (Inr (loaded s), s))))"

section \<open>Reading the trace\<close>

text \<open>The bus messages of a trace, in order.\<close>

fun emitted :: "event list \<Rightarrow> Message list" where
  "emitted [] = []"
| "emitted (Emit m # es) = m # emitted es"
| "emitted (e # es) = emitted es"

text \<open>The events one call added: the trace after it, without the trace before it.\<close>

definition events_during :: "state \<Rightarrow> state \<Rightarrow> event list" where
  "events_during s s' = drop (length (trace s)) (trace s')"

fun is_creator_call :: "event \<Rightarrow> bool" where
  "is_creator_call (CallCreator c a) = True"
| "is_creator_call e = False"

fun is_shutdown_call :: "event \<Rightarrow> bool" where
  "is_shutdown_call (CallShutdown i) = True"
| "is_shutdown_call e = False"

fun is_watcher_start :: "event \<Rightarrow> bool" where
  "is_watcher_start (WatcherStart w) = True"
| "is_watcher_start e = False"

fun is_exec_module :: "event \<Rightarrow> bool" where
  "is_exec_module (ExecModule n p) = True"
| "is_exec_module e = False"

text \<open>The most-derived classes of a list: those of which no other member is a subclass.\<close>

definition most_derived :: "pyclass list \<Rightarrow> pyclass \<Rightarrow> bool" where
  "most_derived cs c = (\<not> list_ex (\<lambda>d. d \<noteq> c \<and> issubclass d c) cs)"

fun is_log :: "event \<Rightarrow> bool" where
  "is_log (Log l m) = True"
| "is_log e = False"

fun is_emit :: "event \<Rightarrow> bool" where
  "is_emit (Emit m) = True"
| "is_emit e = False"

fun is_startup_call :: "event \<Rightarrow> bool" where
  "is_startup_call (CallStartup i b sid) = True"
| "is_startup_call e = False"

text \<open>A call only added events of the given kinds to the trace.\<close>

definition appended :: "(event \<Rightarrow> bool) \<Rightarrow> state \<Rightarrow> state \<Rightarrow> bool" where
  "appended K s s' = (\<exists>evs. trace s' = trace s @ evs \<and> list_all K evs)"

text \<open>
  What construction yields: the object of the call with \<^verbatim>\<open>bus\<close> and \<^verbatim>\<open>skill_id\<close>, or,
  when that call raised, the outcome of the call without arguments.
\<close>

definition built :: "env \<Rightarrow> pyobj \<Rightarrow> bus \<Rightarrow> string option \<Rightarrow> pyexc + SkillInstance option" where
  "built E c b sid =
     (case construct E c (Modern b sid) of
        Inr obj \<Rightarrow> Inr obj
      | Inl e \<Rightarrow> construct E c Legacy)"

text \<open>The instance has an initialisation flag, and the flag the loader reads is false.\<close>

definition reports_uninitialized :: "SkillInstance \<Rightarrow> bool" where
  "reports_uninitialized i =
     (case is_fully_initialized i of
        Some v \<Rightarrow> \<not> v
      | None \<Rightarrow> priv_is_fully_initialized i = Some False)"

text \<open>
  A call left the loader's own attributes alone, but for the instance reference: only
  \<^verbatim>\<open>sys.modules\<close>, the trace and \<^verbatim>\<open>instance\<close> may differ.
\<close>

definition loader_unchanged :: "state \<Rightarrow> state \<Rightarrow> bool" where
  "loader_unchanged s s' =
     (bus s' = bus s \<and> p_skill_directory s' = p_skill_directory s \<and>
      p_skill_id s' = p_skill_id s \<and> p_skill_class s' = p_skill_class s \<and>
      p_loaded s' = p_loaded s \<and> load_attempted s' = load_attempted s \<and>
      last_loaded s' = last_loaded s \<and> active s' = active s \<and>
      p_watchdog s' = p_watchdog s \<and> skill_module s' = skill_module s)"

text \<open>
  What \<^verbatim>\<open>load()\<close> owes its caller: with a true result a live instance and one
  \<^verbatim>\<open>mycroft.skills.loaded\<close> message, otherwise no instance and one
  \<^verbatim>\<open>mycroft.skills.loading_failure\<close> message; no other message in either case.
\<close>

definition reports_status :: "state \<Rightarrow> bool option \<Rightarrow> state \<Rightarrow> bool" where
  "reports_status s r s' =
     ((r = Some True \<longrightarrow>
         cur_instance s' \<noteq> None \<and>
         (\<exists>m. emitted (events_during s s') = [m] \<and> msg_type m = ''mycroft.skills.loaded''
              \<and> map fst (msg_data m) = [''path'', ''id'', ''name'']))
    \<and> (r \<noteq> Some True \<longrightarrow>
         cur_instance s' = None \<and>
         (\<exists>m. emitted (events_during s s') = [m]
              \<and> msg_type m = ''mycroft.skills.loading_failure''
              \<and> map fst (msg_data m) = [''path'', ''id''])))"

section \<open>A skill directory used in the examples\<close>

definition OVOSSkill :: pyclass where
  "OVOSSkill = PyClass 1 ''OVOSSkill'' []"

definition WeatherSkill :: pyclass where
  "WeatherSkill = PyClass 10 ''WeatherSkill'' [OVOSSkill]"

definition weather :: SkillInstance where
  "weather =
     \<lparr>inst_class = WeatherSkill, inst_name = ''WeatherSkill'',
      inst_skill_id = Some ''weather'', inst_root_dir = Some ''/skills/weather'',
      reload_skill = True, is_fully_initialized = None,
      priv_is_fully_initialized = Some True\<rparr>"

text \<open>
  \<^verbatim>\<open>/skills/weather/__init__.py\<close> defines \<^verbatim>\<open>class WeatherSkill(OVOSSkill)\<close>, whose
  constructor accepts \<^verbatim>\<open>bus\<close> and \<^verbatim>\<open>skill_id\<close>; nothing is blacklisted.
\<close>

definition env0 :: env where
  "env0 =
     \<lparr>SKILL_BASE_CLASSES = [OVOSSkill], blacklisted_skills = None, debug = False,
      time = 100, getrefcount = (\<lambda>i. 3),
      path_exists = (\<lambda>p. p = ''/skills/weather/__init__.py''),
      exec_module = (\<lambda>p cache. \<lparr>raised = None,
                                   namespace = [(''WeatherSkill'', ClassObj WeatherSkill)],
                                   imported = []\<rparr>),
      construct = (\<lambda>c args. Inr (Some weather)),
      startup = (\<lambda>i b sid. Inr i),
      default_shutdown = (\<lambda>i. None)\<rparr>"

definition s0 :: state where
  "s0 = SkillLoader_init [] 7 (Some ''/skills/weather'') (Some ''weather'')"

text \<open>The state after \<^verbatim>\<open>load()\<close> succeeded on \<open>s0\<close>.\<close>

definition s_loaded :: state where
  "s_loaded = snd (load env0 s0)"

text \<open>The same directory with its main file gone.\<close>

definition env_missing :: env where
  "env_missing = env0\<lparr>path_exists := (\<lambda>p. False)\<rparr>"

text \<open>
  A module cache left by an earlier version of the skill: the old module with a class
  \<^verbatim>\<open>OldSkill\<close>, a submodule \<^verbatim>\<open>weather.util\<close>, and an unrelated module.
\<close>

definition OldSkill :: pyclass where
  "OldSkill = PyClass 9 ''OldSkill'' [OVOSSkill]"

definition s_stale :: state where
  "s_stale = s0\<lparr>sys_modules :=
     [(''weather'', \<lparr>mod_name = ''weather'', mod_file = ''/skills/weather/__init__.py'',
                     mod_dict = [(''OldSkill'', ClassObj OldSkill)]\<rparr>),
      (''weather.util'', \<lparr>mod_name = ''weather.util'',
                          mod_file = ''/skills/weather/util.py'',
                          mod_dict = [(''helper'', FunctionObj 3)]\<rparr>),
      (''os'', \<lparr>mod_name = ''os'', mod_file = ''/usr/lib/python3/os.py'', mod_dict = []\<rparr>)]\<rparr>"

text \<open>
  A module with a local intermediate base: \<^verbatim>\<open>class LocalBase(OVOSSkill)\<close> and
  \<^verbatim>\<open>class MySkill(LocalBase)\<close>, next to the imported base class and a constant; and a
  module with two unrelated skills.
\<close>

definition LocalBase :: pyclass where
  "LocalBase = PyClass 20 ''LocalBase'' [OVOSSkill]"

definition MySkill :: pyclass where
  "MySkill = PyClass 21 ''MySkill'' [LocalBase]"

definition OtherSkill :: pyclass where
  "OtherSkill = PyClass 22 ''OtherSkill'' [OVOSSkill]"

definition two_class_module :: pymodule where
  "two_class_module =
     \<lparr>mod_name = ''my_skill'', mod_file = ''/skills/my-skill/__init__.py'',
      mod_dict = [(''OVOSSkill'', ClassObj OVOSSkill), (''LocalBase'', ClassObj LocalBase),
                  (''VERSION'', ValueObj 1), (''MySkill'', ClassObj MySkill)]\<rparr>"

definition ambiguous_module :: pymodule where
  "ambiguous_module =
     \<lparr>mod_name = ''two_skills'', mod_file = ''/skills/two-skills/__init__.py'',
      mod_dict = [(''MySkill'', ClassObj MySkill), (''OtherSkill'', ClassObj OtherSkill)]\<rparr>"

text \<open>A loaded skill whose instance does not permit reloading.\<close>

definition s_pinned :: state where
  "s_pinned = s_loaded\<lparr>cur_instance := Some (weather\<lparr>reload_skill := False\<rparr>)\<rparr>"

text \<open>Collaborators whose teardown hook fails, with an error and with an interrupt.\<close>

definition env_bad_shutdown :: env where
  "env_bad_shutdown = env0\<lparr>default_shutdown := (\<lambda>i. Some (SkillError 1))\<rparr>"

definition env_interrupted_shutdown :: env where
  "env_interrupted_shutdown = env0\<lparr>default_shutdown := (\<lambda>i. Some KeyboardInterrupt)\<rparr>"

text \<open>The identifier has been put on the blacklist.\<close>

definition env_blacklisted :: env where
  "env_blacklisted = env0\<lparr>blacklisted_skills := Some [''weather'']\<rparr>"

text \<open>
  A skill of the older kind: the constructor takes no arguments and leaves the
  initialisation to \<^verbatim>\<open>_startup\<close>, which binds the identifier.
\<close>

definition lazy_weather :: SkillInstance where
  "lazy_weather = weather\<lparr>inst_skill_id := None, priv_is_fully_initialized := Some False\<rparr>"

definition env_legacy :: env where
  "env_legacy =
     env0\<lparr>construct := (\<lambda>c args. case args of Modern b sid \<Rightarrow> Inl TypeError
                                         | Legacy \<Rightarrow> Inr (Some lazy_weather)),
          startup := (\<lambda>i b sid. Inr (i\<lparr>inst_skill_id := sid,
                                           priv_is_fully_initialized := Some True\<rparr>))\<rparr>"

text \<open>The same skill, interrupted from the keyboard while \<^verbatim>\<open>_startup\<close> runs.\<close>

definition env_interrupted_startup :: env where
  "env_interrupted_startup = env_legacy\<lparr>startup := (\<lambda>i b sid. Inl KeyboardInterrupt)\<rparr>"

text \<open>A factory that returns an object without either initialisation flag.\<close>

definition flagless :: SkillInstance where
  "flagless = weather\<lparr>priv_is_fully_initialized := None\<rparr>"

definition env_flagless :: env where
  "env_flagless = env0\<lparr>construct := (\<lambda>c args. Inr (Some flagless))\<rparr>"

text \<open>The state after \<^verbatim>\<open>unload()\<close> on the loaded weather skill.\<close>

definition s_unloaded :: state where
  "s_unloaded = snd (unload env0 s_loaded)"

text \<open>The loader of the weather skill once its source has been executed.\<close>

definition s_ready :: state where
  "s_ready = s0\<lparr>skill_module :=
     Some \<lparr>mod_name = ''weather'', mod_file = ''/skills/weather/__init__.py'',
           mod_dict = [(''WeatherSkill'', ClassObj WeatherSkill)]\<rparr>\<rparr>"

section \<open>Properties\<close>

subsection \<open>Sequencing and handlers\<close>

lemma and_then_simps [simp]:
  "and_then (Inl e, s) f = (Inl e, s)"
  "and_then (Inr v, s) f = f v s"
  by (simp_all add: and_then_def)

lemma catch_Exception_simps [simp]:
  "catch_Exception (Inr v, s) h = (Inr v, s)"
  "catch_Exception (Inl e, s) h = (if isinstance_Exception e then h s else (Inl e, s))"
  by (simp_all add: catch_Exception_def)

lemma catch_all_simps [simp]:
  "catch_all (Inr v, s) h = (Inr v, s)"
  "catch_all (Inl e, s) h = h s"
  by (simp_all add: catch_all_def)

lemma and_thenE:
  assumes "and_then r f = (res, s')"
  obtains (raised) e where "r = (Inl e, s')" "res = Inl e"
        | (returned) v s1 where "r = (Inr v, s1)" "f v s1 = (res, s')"
  using assms by (cases r; cases "fst r") auto

lemma catch_ExceptionE:
  assumes "catch_Exception r h = (res, s')"
  obtains (returned) v where "r = (Inr v, s')" "res = Inr v"
        | (caught) e s1 where "r = (Inl e, s1)" "isinstance_Exception e" "h s1 = (res, s')"
        | (propagated) e where "r = (Inl e, s')" "\<not> isinstance_Exception e" "res = Inl e"
  using assms by (cases r; cases "fst r") (auto split: if_splits)

lemma catch_allE:
  assumes "catch_all r h = (res, s')"
  obtains (returned) v where "r = (Inr v, s')" "res = Inr v"
        | (caught) e s1 where "r = (Inl e, s1)" "h s1 = (res, s')"
  using assms by (cases r; cases "fst r") auto

subsection \<open>Unfolding the model on the examples\<close>

lemmas example_defs = env0_def s0_def weather_def WeatherSkill_def OVOSSkill_def
  SkillLoader_init_def env_missing_def s_stale_def OldSkill_def s_pinned_def
  env_bad_shutdown_def env_interrupted_shutdown_def env_blacklisted_def lazy_weather_def
  env_legacy_def env_interrupted_startup_def flagless_def env_flagless_def s_ready_def

lemmas model_defs =
  load_def p_load_def LOG_def emit_def p_prepare_for_load_def p_skip_load_def is_blacklisted_def
  skill_id_def skill_directory_def truthy_def p_load_skill_source_def os_path_join_def
  SKILL_MAIN_MODULE_def load_skill_module_def replace_def
  remove_submodule_refs_def p_create_skill_instance_def get_create_skill_function_def
  skill_class_def get_skill_class_def invoke_def read_is_initialized_def call_startup_def
  p_communicate_load_status_def loaded_def p_start_filewatcher_def
  p_execute_instance_shutdown_def p_garbage_collect_def p_emit_skill_shutdown_event_def
  p_unload_def unload_def reload_def startswith_def basename_def Let_def

lemma load_env0_s0:
  "load env0 s0 =
    (Inr (Some True),
     s0\<lparr>sys_modules :=
          [(''weather'', \<lparr>mod_name = ''weather'', mod_file = ''/skills/weather/__init__.py'',
              mod_dict = [(''WeatherSkill'', ClassObj WeatherSkill)]\<rparr>)],
        trace :=
          [Log Info ''ATTEMPTING TO LOAD SKILL'', Log Debug ''Skill module'',
           ExecModule ''weather'' ''/skills/weather/__init__.py'',
           Log Debug ''Loading skill class'',
           CallCreator (ClassObj WeatherSkill) (Modern 7 (Some ''weather'')),
           Emit \<lparr>msg_type = ''mycroft.skills.loaded'',
                  msg_data = [(''path'', Some ''/skills/weather''), (''id'', Some ''weather''),
                              (''name'', Some ''WeatherSkill'')]\<rparr>,
           Log Info ''loaded successfully'',
           WatcherStart (FileWatcher [Some ''/skills/weather''] True)],
        p_loaded := Some True, load_attempted := True, last_loaded := 100,
        cur_instance := Some weather,
        p_watchdog := Some (FileWatcher [Some ''/skills/weather''] True),
        skill_module := Some \<lparr>mod_name = ''weather'', mod_file = ''/skills/weather/__init__.py'',
              mod_dict = [(''WeatherSkill'', ClassObj WeatherSkill)]\<rparr>\<rparr>)"
  by (simp add: example_defs model_defs)

subsection \<open>Traces\<close>

lemma emitted_append [simp]: "emitted (xs @ ys) = emitted xs @ emitted ys"
  by (induction xs rule: emitted.induct) auto

lemma emitted_none: "list_all (\<lambda>e. \<not> is_emit e) evs \<Longrightarrow> emitted evs = []"
  by (induction evs rule: emitted.induct) auto

lemma appended_refl [simp]: "appended K s s"
  by (simp add: appended_def)

lemma appended_trans: "appended K s s1 \<Longrightarrow> appended K s1 s2 \<Longrightarrow> appended K s s2"
  by (auto simp: appended_def)

lemma appended_mono: "appended K s s' \<Longrightarrow> (\<And>e. K e \<Longrightarrow> K' e) \<Longrightarrow> appended K' s s'"
  unfolding appended_def by (auto simp: list_all_iff)

lemma appended_same_trace: "trace s' = trace s \<Longrightarrow> appended K s s'"
  by (simp add: appended_def)

lemma appended_step: "trace s' = trace s @ evs \<Longrightarrow> list_all K evs \<Longrightarrow> appended K s s'"
  by (auto simp: appended_def)

lemma appended_LOG: "K (Log l m) \<Longrightarrow> appended K s (LOG l m s)"
  by (simp add: appended_def LOG_def)

lemma appended_then_LOG: "appended K s s' \<Longrightarrow> K (Log l m) \<Longrightarrow> appended K s (LOG l m s')"
  by (auto simp: appended_def LOG_def)

lemma appended_events:
  "appended K s s' \<Longrightarrow> trace s' = trace s @ events_during s s' \<and> list_all K (events_during s s')"
  by (auto simp: appended_def events_during_def)

lemma events_during_append:
  "trace s' = trace s @ evs \<Longrightarrow> events_during s s' = evs"
  by (simp add: events_during_def)

lemma events_during_trans:
  "appended K s s1 \<Longrightarrow> appended K' s1 s2 \<Longrightarrow>
   events_during s s2 = events_during s s1 @ events_during s1 s2"
  by (auto simp: appended_def events_during_def)

subsection \<open>remove_submodule_refs\<close>

lemma fold_delete_refs:
  "fold (\<lambda>m s. s\<lparr>trace := trace s @ [Log Debug msg],
                    sys_modules := AList.delete m (sys_modules s)\<rparr>) ks s
     = s\<lparr>sys_modules := fold AList.delete ks (sys_modules s),
         trace := trace s @ replicate (length ks) (Log Debug msg)\<rparr>"
  by (induction ks arbitrary: s) (simp_all add: replicate_append_same)

lemma map_of_fold_delete:
  "map_of (fold AList.delete ks al) k = (if k \<in> set ks then None else map_of al k)"
  by (induction ks arbitrary: al) (auto simp: delete_conv')

lemma remove_submodule_refs_eq:
  "remove_submodule_refs n s =
     s\<lparr>sys_modules := sys_modules (remove_submodule_refs n s),
       trace := trace (remove_submodule_refs n s)\<rparr>"
  by (simp add: remove_submodule_refs_def fold_delete_refs LOG_def Let_def)

lemma remove_submodule_refs_appended: "appended is_log s (remove_submodule_refs n s)"
  by (simp add: remove_submodule_refs_def fold_delete_refs LOG_def Let_def appended_def
      list_all_iff)

lemma remove_submodule_refs_lookup:
  "map_of (sys_modules (remove_submodule_refs n s)) k =
     (if startswith k (n @ ''.'') then None else map_of (sys_modules s) k)"
proof -
  have "k \<notin> fst ` set (sys_modules s) \<Longrightarrow> map_of (sys_modules s) k = None"
    by (simp add: map_of_eq_None_iff)
  then show ?thesis
    by (auto simp: remove_submodule_refs_def fold_delete_refs LOG_def Let_def map_of_fold_delete)
qed

lemma map_of_fold_update:
  "map_of (fold (\<lambda>(k, m). AList.update k m) xs al) k =
     (case map_of (rev xs) k of Some m \<Rightarrow> Some m | None \<Rightarrow> map_of al k)"
proof (induction xs arbitrary: al)
  case Nil
  then show ?case by simp
next
  case (Cons x xs)
  obtain a b where x: "x = (a, b)" by (cases x)
  show ?case
    by (simp add: Cons.IH x update_conv' map_add_def split: option.splits)
qed

lemma startswith_longer: "startswith k (n @ ''.'') \<Longrightarrow> k \<noteq> n"
  by (auto simp: startswith_def)

lemma remove_submodule_refs_unchanged:
  "loader_unchanged s (remove_submodule_refs n s) \<and>
   cur_instance (remove_submodule_refs n s) = cur_instance s"
  by (simp add: remove_submodule_refs_def fold_delete_refs LOG_def Let_def loader_unchanged_def)

lemma load_skill_module_unchanged:
  assumes "load_skill_module E path sid s = (r, s')"
  shows "loader_unchanged s s' \<and> cur_instance s' = cur_instance s"
proof (cases sid)
  case None
  with assms show ?thesis by (simp add: load_skill_module_def loader_unchanged_def)
next
  case (Some i)
  from remove_submodule_refs_unchanged[of s "replace CHR ''.'' CHR ''_'' i"] assms Some
  show ?thesis
    by (auto simp: load_skill_module_def Let_def loader_unchanged_def split: option.splits)
qed

lemma load_skill_module_appended:
  assumes "load_skill_module E path sid s = (r, s')"
  shows "appended (\<lambda>e. is_log e \<or> is_exec_module e) s s'"
proof (cases sid)
  case None
  with assms show ?thesis by (simp add: load_skill_module_def)
next
  case (Some i)
  let ?n = "replace CHR ''.'' CHR ''_'' i"
  have "appended (\<lambda>e. is_log e \<or> is_exec_module e) s (remove_submodule_refs ?n s)"
    by (rule appended_mono[OF remove_submodule_refs_appended]) simp
  then show ?thesis
    using assms Some
    by (auto simp: load_skill_module_def Let_def appended_def split: option.splits)
qed


text \<open>
  Claim C2. Loading a skill module first removes from \<^verbatim>\<open>sys.modules\<close> every entry
  whose key starts with the module's identifier followed by a dot, registers a new, empty
  module under the identifier and only then executes the file. The cache the execution
  sees has no entry under the namespace and differs from the old cache nowhere else but
  at the identifier itself; the returned module holds what this execution bound; and
  afterwards an entry under the namespace exists only if this execution imported it,
  so no class or submodule of the previous version is resolved.
\<close>

theorem load_skill_module_purges_stale:
  assumes "load_skill_module E path (Some sid) s = (r, s')"
  shows "\<exists>n cache x m.
           n = replace CHR ''.'' CHR ''_'' sid
         \<and> (\<forall>k. startswith k (n @ ''.'') \<longrightarrow> map_of cache k = None)
         \<and> (\<forall>k. \<not> startswith k (n @ ''.'') \<and> k \<noteq> n
                 \<longrightarrow> map_of cache k = map_of (sys_modules s) k)
         \<and> map_of cache n = Some \<lparr>mod_name = n, mod_file = path, mod_dict = []\<rparr>
         \<and> x = exec_module E path cache
         \<and> m = \<lparr>mod_name = n, mod_file = path, mod_dict = namespace x\<rparr>
         \<and> r = (case raised x of None \<Rightarrow> Inr m | Some e \<Rightarrow> Inl e)
         \<and> (\<forall>k. startswith k (n @ ''.'')
                 \<longrightarrow> map_of (sys_modules s') k = map_of (rev (imported x)) k)
         \<and> (map_of (rev (imported x)) n = None \<longrightarrow> map_of (sys_modules s') n = Some m)"
proof -
  let ?n = "replace CHR ''.'' CHR ''_'' sid"
  let ?cache = "AList.update ?n \<lparr>mod_name = ?n, mod_file = path, mod_dict = []\<rparr>
                  (sys_modules (remove_submodule_refs ?n s))"
  let ?x = "exec_module E path ?cache"
  let ?m = "\<lparr>mod_name = ?n, mod_file = path, mod_dict = namespace ?x\<rparr>"
  have purge: "\<forall>k. startswith k (?n @ ''.'') \<longrightarrow> map_of ?cache k = None"
    by (auto simp: update_conv' remove_submodule_refs_lookup dest: startswith_longer)
  have keep: "\<forall>k. \<not> startswith k (?n @ ''.'') \<and> k \<noteq> ?n
                \<longrightarrow> map_of ?cache k = map_of (sys_modules s) k"
    by (simp add: update_conv' remove_submodule_refs_lookup)
  have reg: "map_of ?cache ?n = Some \<lparr>mod_name = ?n, mod_file = path, mod_dict = []\<rparr>"
    by (simp add: update_conv')
  have res: "r = (case raised ?x of None \<Rightarrow> Inr ?m | Some e \<Rightarrow> Inl e)"
    using assms by (auto simp: load_skill_module_def Let_def split: option.splits)
  have final: "sys_modules s' =
      fold (\<lambda>(k, m). AList.update k m) (imported ?x) (AList.update ?n ?m ?cache)"
    using assms by (auto simp: load_skill_module_def Let_def split: option.splits)
  have sub: "\<forall>k. startswith k (?n @ ''.'')
               \<longrightarrow> map_of (sys_modules s') k = map_of (rev (imported ?x)) k"
    using purge
    by (auto simp: final map_of_fold_update update_conv' split: option.splits
        dest: startswith_longer)
  have self: "map_of (rev (imported ?x)) ?n = None \<longrightarrow> map_of (sys_modules s') ?n = Some ?m"
    by (simp add: final map_of_fold_update update_conv')
  show ?thesis
    by (rule exI[of _ ?n], rule exI[of _ ?cache], rule exI[of _ ?x], rule exI[of _ ?m])
       (intro conjI refl purge keep reg res sub self)
qed

theorem load_skill_module_purges_stale_witness:
  "fst (load_skill_module env0 ''/skills/weather/__init__.py'' (Some ''weather'') s_stale)
     = Inr \<lparr>mod_name = ''weather'', mod_file = ''/skills/weather/__init__.py'',
            mod_dict = [(''WeatherSkill'', ClassObj WeatherSkill)]\<rparr>
   \<and> map_of (sys_modules s_stale) ''weather.util'' \<noteq> None
   \<and> map_of (sys_modules (snd (load_skill_module env0 ''/skills/weather/__init__.py''
          (Some ''weather'') s_stale))) ''weather.util'' = None"
proof -
  obtain r s' where h:
    "load_skill_module env0 ''/skills/weather/__init__.py'' (Some ''weather'') s_stale = (r, s')"
    by (cases "load_skill_module env0 ''/skills/weather/__init__.py'' (Some ''weather'') s_stale")
  have pre: "startswith ''weather.util'' (replace CHR ''.'' CHR ''_'' ''weather'' @ ''.'')"
    by (simp add: startswith_def replace_def)
  from load_skill_module_purges_stale[OF h] pre
  have "r = Inr \<lparr>mod_name = ''weather'', mod_file = ''/skills/weather/__init__.py'',
            mod_dict = [(''WeatherSkill'', ClassObj WeatherSkill)]\<rparr>
        \<and> map_of (sys_modules s') ''weather.util'' = None"
    by (auto simp: env0_def replace_def)
  moreover have "map_of (sys_modules s_stale) ''weather.util'' \<noteq> None"
    by (simp add: s_stale_def)
  ultimately show ?thesis by (simp add: h)
qed

subsection \<open>Instance creation\<close>

lemma get_skill_class_Module: "\<exists>c. fst (get_skill_class B (Module m)) = Inr c"
  by (simp add: get_skill_class_def Let_def split: list.splits)

lemma skill_class_sound:
  assumes "skill_class E s = (r, s')"
  shows "(\<exists>c. r = Inr c) \<and> loader_unchanged s s' \<and> cur_instance s' = cur_instance s
         \<and> sys_modules s' = sys_modules s \<and> appended is_log s s'"
proof (cases "skill_module s")
  case None
  with assms show ?thesis by (auto simp: skill_class_def Let_def loader_unchanged_def)
next
  case (Some m)
  obtain c where c: "fst (get_skill_class (SKILL_BASE_CLASSES E) (Module m)) = Inr c"
    using get_skill_class_Module by blast
  obtain r0 logs where g: "get_skill_class (SKILL_BASE_CLASSES E) (Module m) = (r0, logs)"
    by (cases "get_skill_class (SKILL_BASE_CLASSES E) (Module m)")
  have logs: "list_all is_log (map (\<lambda>(l, t). Log l t) logs)"
    by (induction logs) auto
  from assms Some c g logs show ?thesis
    by (auto simp: skill_class_def Let_def appended_def loader_unchanged_def split: if_splits)
qed

lemma invoke_sound:
  assumes "invoke E c args s = (r, s')"
  shows "loader_unchanged s s' \<and> cur_instance s' = cur_instance s
         \<and> sys_modules s' = sys_modules s \<and> appended is_creator_call s s'"
  using assms
  by (auto simp: invoke_def appended_def loader_unchanged_def split: option.splits if_splits)

lemma read_is_initialized_sound:
  assumes "read_is_initialized s = (r, s')"
  shows "loader_unchanged s s' \<and> cur_instance s' = cur_instance s
         \<and> sys_modules s' = sys_modules s \<and> appended is_log s s'"
  using assms
  by (auto simp: read_is_initialized_def appended_def LOG_def loader_unchanged_def
      split: option.splits)

lemma call_startup_sound:
  assumes "call_startup E s = (r, s')"
  shows "loader_unchanged s s' \<and> sys_modules s' = sys_modules s
         \<and> appended is_startup_call s s'"
  using assms
  by (auto simp: call_startup_def appended_def Let_def loader_unchanged_def
      split: option.splits sum.splits)

lemma loader_unchanged_refl [simp]: "loader_unchanged s s"
  by (simp add: loader_unchanged_def)

lemma loader_unchanged_trans:
  "loader_unchanged s s1 \<Longrightarrow> loader_unchanged s1 s2 \<Longrightarrow> loader_unchanged s s2"
  by (simp add: loader_unchanged_def)

lemma skill_class_step:
  assumes "skill_class E s = (r, s')"
  shows "(\<exists>c. r = Inr c) \<and> loader_unchanged s s' \<and> cur_instance s' = cur_instance s
         \<and> sys_modules s' = sys_modules s
         \<and> appended (\<lambda>e. is_log e \<or> is_creator_call e \<or> is_startup_call e) s s'"
  using skill_class_sound[OF assms] by (auto intro: appended_mono)

lemma invoke_step:
  assumes "invoke E c args s = (r, s')"
  shows "loader_unchanged s s' \<and> cur_instance s' = cur_instance s
         \<and> sys_modules s' = sys_modules s
         \<and> appended (\<lambda>e. is_log e \<or> is_creator_call e \<or> is_startup_call e) s s'"
  using invoke_sound[OF assms] by (auto intro: appended_mono)

lemma read_is_initialized_step:
  assumes "read_is_initialized s = (r, s')"
  shows "loader_unchanged s s' \<and> cur_instance s' = cur_instance s
         \<and> sys_modules s' = sys_modules s
         \<and> appended (\<lambda>e. is_log e \<or> is_creator_call e \<or> is_startup_call e) s s'"
  using read_is_initialized_sound[OF assms] by (auto intro: appended_mono)

lemma call_startup_step:
  assumes "call_startup E s = (r, s')"
  shows "loader_unchanged s s' \<and> sys_modules s' = sys_modules s
         \<and> appended (\<lambda>e. is_log e \<or> is_creator_call e \<or> is_startup_call e) s s'"
  using call_startup_sound[OF assms] by (auto intro: appended_mono)

lemma appended_field_update [simp]:
  "appended K s (s'\<lparr>cur_instance := c\<rparr>) = appended K s s'"
  "appended K (s\<lparr>cur_instance := c\<rparr>) s' = appended K s s'"
  "appended K s (s'\<lparr>p_loaded := l\<rparr>) = appended K s s'"
  "appended K (s\<lparr>p_loaded := l\<rparr>) s' = appended K s s'"
  "appended K s (s'\<lparr>skill_module := m\<rparr>) = appended K s s'"
  "appended K (s\<lparr>skill_module := m\<rparr>) s' = appended K s s'"
  "appended K s (s'\<lparr>last_loaded := t\<rparr>) = appended K s s'"
  "appended K (s\<lparr>last_loaded := t\<rparr>) s' = appended K s s'"
  "appended K s (s'\<lparr>load_attempted := a\<rparr>) = appended K s s'"
  "appended K (s\<lparr>load_attempted := a\<rparr>) s' = appended K s s'"
  "appended K s (s'\<lparr>p_watchdog := w\<rparr>) = appended K s s'"
  "appended K (s\<lparr>p_watchdog := w\<rparr>) s' = appended K s s'"
  "appended K s (s'\<lparr>active := a\<rparr>) = appended K s s'"
  "appended K (s\<lparr>active := a\<rparr>) s' = appended K s s'"
  "appended K s (s'\<lparr>p_skill_class := k\<rparr>) = appended K s s'"
  "appended K (s\<lparr>p_skill_class := k\<rparr>) s' = appended K s s'"
  by (simp_all add: appended_def)

lemma loader_unchanged_instance [simp]:
  "loader_unchanged s (s'\<lparr>cur_instance := c\<rparr>) = loader_unchanged s s'"
  "loader_unchanged (s\<lparr>cur_instance := c\<rparr>) s' = loader_unchanged s s'"
  by (simp_all add: loader_unchanged_def)

lemma construct_block:
  assumes "catch_all
             (and_then (invoke E c (Modern (bus s) (skill_id s)) s)
                (\<lambda>obj s. (Inr (), s\<lparr>cur_instance := obj\<rparr>)))
             (\<lambda>s. and_then (invoke E c Legacy s)
                     (\<lambda>obj s. (Inr (), s\<lparr>cur_instance := obj\<rparr>))) = (r, s')"
  shows "loader_unchanged s s' \<and> sys_modules s' = sys_modules s
         \<and> appended (\<lambda>e. is_log e \<or> is_creator_call e \<or> is_startup_call e) s s'"
  using assms
  by (auto elim!: catch_allE and_thenE dest!: invoke_step
      intro: appended_trans loader_unchanged_trans)


lemma init_block:
  assumes "and_then (read_is_initialized s)
             (\<lambda>is_initialized s.
                if \<not> is_initialized then call_startup E s else (Inr (), s)) = (r, s')"
  shows "loader_unchanged s s' \<and> sys_modules s' = sys_modules s
         \<and> appended (\<lambda>e. is_log e \<or> is_creator_call e \<or> is_startup_call e) s s'"
  using assms
  by (auto elim!: and_thenE dest!: read_is_initialized_step call_startup_step
      split: if_splits intro: appended_trans loader_unchanged_trans)

lemma try_block:
  assumes "and_then
              (case get_create_skill_function m of
                 Some f \<Rightarrow> (Inr (Some f), s)
               | None \<Rightarrow> skill_class E s)
              (\<lambda>skill_creator s.
                 and_then
                   (catch_all
                      (and_then (invoke E skill_creator (Modern (bus s) (skill_id s)) s)
                         (\<lambda>obj s. (Inr (), s\<lparr>cur_instance := obj\<rparr>)))
                      (\<lambda>s. and_then (invoke E skill_creator Legacy s)
                              (\<lambda>obj s. (Inr (), s\<lparr>cur_instance := obj\<rparr>))))
                   (\<lambda>_ s. and_then (read_is_initialized s)
                             (\<lambda>is_initialized s.
                                if \<not> is_initialized then call_startup E s else (Inr (), s))))
            = (r, s')"
  shows "loader_unchanged s s' \<and> sys_modules s' = sys_modules s
         \<and> appended (\<lambda>e. is_log e \<or> is_creator_call e \<or> is_startup_call e) s s'"
  using assms
  apply (cases "get_create_skill_function m")
   apply (auto elim!: and_thenE dest!: skill_class_step construct_block init_block
      intro: appended_trans loader_unchanged_trans)
  done

lemma p_create_skill_instance_sound:
  assumes "p_create_skill_instance E marg s = (r, s')"
  shows "loader_unchanged s s' \<and> sys_modules s' = sys_modules s
         \<and> appended (\<lambda>e. is_log e \<or> is_creator_call e \<or> is_startup_call e) s s'
         \<and> (\<forall>b. r = Inr b \<longrightarrow> b = (cur_instance s' \<noteq> None))
         \<and> (\<forall>e. r = Inl e \<longrightarrow> \<not> isinstance_Exception e)"
  using assms unfolding p_create_skill_instance_def Let_def
  apply -
  apply (erule and_thenE; erule catch_ExceptionE)
  apply (auto dest!: try_block simp: LOG_def appended_def loader_unchanged_def)
  done

lemma load_skill_module_sound:
  assumes "load_skill_module E path sid s = (r, s')"
  shows "loader_unchanged s s' \<and> cur_instance s' = cur_instance s
         \<and> appended (\<lambda>e. is_log e \<or> is_exec_module e) s s'"
  using load_skill_module_unchanged[OF assms] load_skill_module_appended[OF assms] by simp

lemma p_load_skill_source_sound:
  assumes "p_load_skill_source E s = (r, s')"
  shows "loader_unchanged s s' \<and> cur_instance s' = cur_instance s
         \<and> appended (\<lambda>e. is_log e \<or> is_exec_module e) s s'"
proof (cases "skill_directory s")
  case None
  with assms show ?thesis by (simp add: p_load_skill_source_def)
next
  case (Some d)
  show ?thesis
  proof (cases "path_exists E (os_path_join d SKILL_MAIN_MODULE)")
    case False
    with assms Some show ?thesis
      by (auto simp: p_load_skill_source_def Let_def LOG_def appended_def loader_unchanged_def)
  next
    case True
    with assms Some have
      "catch_Exception
         (and_then (load_skill_module E (os_path_join d SKILL_MAIN_MODULE) (skill_id s) s)
            (\<lambda>m s. (Inr (Some m), s)))
         (\<lambda>s. (Inr None, LOG Exception ''Failed to load skill'' s)) = (r, s')"
      by (simp add: p_load_skill_source_def Let_def)
    then show ?thesis
      apply -
      apply (erule catch_ExceptionE; erule and_thenE)
      apply (auto dest!: load_skill_module_sound
          simp: LOG_def appended_def loader_unchanged_def)
      done
  qed
qed

text \<open>The first half of \<open>p_load\<close>: skip, or load the source and create the instance.\<close>

lemma attempt_block:
  assumes "(if is_blacklisted E s then (Inr (), p_skip_load s)
            else and_then (p_load_skill_source E s)
                   (\<lambda>m s. and_then (p_create_skill_instance E None (s\<lparr>skill_module := m\<rparr>))
                             (\<lambda>b s. (Inr (), s\<lparr>p_loaded := Some b\<rparr>)))) = (r, s1)"
  shows "appended (\<lambda>e. \<not> is_emit e \<and> \<not> is_shutdown_call e \<and> \<not> is_watcher_start e) s s1
         \<and> p_watchdog s1 = p_watchdog s \<and> bus s1 = bus s
         \<and> p_skill_directory s1 = p_skill_directory s \<and> p_skill_id s1 = p_skill_id s
         \<and> (is_blacklisted E s \<longrightarrow> r = Inr () \<and> s1 = p_skip_load s)
         \<and> (\<not> is_blacklisted E s \<longrightarrow> r = Inr ()
               \<longrightarrow> p_loaded s1 = Some (cur_instance s1 \<noteq> None))"
proof (cases "is_blacklisted E s")
  case True
  with assms show ?thesis
    by (auto simp: p_skip_load_def LOG_def appended_def)
next
  case False
  let ?K = "\<lambda>e. \<not> is_emit e \<and> \<not> is_shutdown_call e \<and> \<not> is_watcher_start e"
  have k1: "\<And>a b. appended (\<lambda>e. is_log e \<or> is_exec_module e) a b \<Longrightarrow> appended ?K a b"
    by (erule appended_mono) (auto elim: is_log.elims is_exec_module.elims)
  have k2: "\<And>a b. appended (\<lambda>e. is_log e \<or> is_creator_call e \<or> is_startup_call e) a b
              \<Longrightarrow> appended ?K a b"
    by (erule appended_mono)
       (auto elim: is_log.elims is_creator_call.elims is_startup_call.elims)
  from assms False have
    "and_then (p_load_skill_source E s)
       (\<lambda>m s. and_then (p_create_skill_instance E None (s\<lparr>skill_module := m\<rparr>))
                 (\<lambda>b s. (Inr (), s\<lparr>p_loaded := Some b\<rparr>))) = (r, s1)"
    by simp
  then show ?thesis
  proof (cases rule: and_thenE)
    case (raised e)
    from p_load_skill_source_sound[OF raised(1)] False raised(2) show ?thesis
      by (auto dest!: k1 simp: loader_unchanged_def)
  next
    case (returned m s2)
    note src = p_load_skill_source_sound[OF returned(1)]
    from returned(2) show ?thesis
    proof (cases rule: and_thenE)
      case (raised e)
      from p_create_skill_instance_sound[OF raised(1)] src False raised(2) show ?thesis
        by (auto dest!: k1 k2 intro: appended_trans simp: loader_unchanged_def)
    next
      case (returned b s3)
      from p_create_skill_instance_sound[OF returned(1)] src False returned(2) show ?thesis
        by (auto dest!: k1 k2 intro: appended_trans simp: loader_unchanged_def)
    qed
  qed
qed


lemma emitted_quiet:
  "list_all (\<lambda>e. \<not> is_emit e \<and> \<not> is_shutdown_call e \<and> \<not> is_watcher_start e) evs
     \<Longrightarrow> emitted evs = []"
  by (rule emitted_none) (simp add: list_all_iff)

text \<open>The second half of \<open>p_load\<close>, once the attempt is over.\<close>

lemma report_block:
  assumes "and_then (p_communicate_load_status E (s1\<lparr>last_loaded := time E\<rparr>))
             (\<lambda>_ s. let s = p_start_filewatcher s in (Inr (loaded s), s)) = (Inr r, s')"
  shows "r = p_loaded s1 \<and> cur_instance s' = cur_instance s1
         \<and> (r = Some True \<longrightarrow> cur_instance s1 \<noteq> None)
         \<and> (\<exists>m evs. trace s' = trace s1 @ Emit m # evs \<and> emitted evs = []
               \<and> (r = Some True \<longrightarrow> msg_type m = ''mycroft.skills.loaded''
                      \<and> map fst (msg_data m) = [''path'', ''id'', ''name''])
               \<and> (r \<noteq> Some True \<longrightarrow> msg_type m = ''mycroft.skills.loading_failure''
                      \<and> map fst (msg_data m) = [''path'', ''id'']))"
  using assms
  by (auto simp: p_communicate_load_status_def p_start_filewatcher_def loaded_def LOG_def
      emit_def Let_def split: if_splits option.splits)

text \<open>
  Claim C1. After \<^verbatim>\<open>load()\<close> returns true, a live instance exists and exactly one
  bus message was emitted during the call, a \<^verbatim>\<open>mycroft.skills.loaded\<close> message with the
  payload keys path, id and name; after it returns a false value (\<^verbatim>\<open>False\<close> or
  \<^verbatim>\<open>None\<close>), no instance exists and exactly one message was emitted, a
  \<^verbatim>\<open>mycroft.skills.loading_failure\<close> message with the payload keys path and id.
\<close>

theorem load_reports_status:
  assumes "load E s = (Inr r, s')"
  shows "reports_status s r s'"
proof -
  let ?s0 = "p_prepare_for_load (LOG Info ''ATTEMPTING TO LOAD SKILL'' s)"
  have s0: "cur_instance ?s0 = None" "p_loaded ?s0 = p_loaded s"
    "trace ?s0 = trace s @ [Log Info ''ATTEMPTING TO LOAD SKILL'']"
    by (simp_all add: p_prepare_for_load_def LOG_def)
  from assms have "and_then
        (if is_blacklisted E ?s0 then (Inr (), p_skip_load ?s0)
         else and_then (p_load_skill_source E ?s0)
                (\<lambda>m s. and_then (p_create_skill_instance E None (s\<lparr>skill_module := m\<rparr>))
                          (\<lambda>b s. (Inr (), s\<lparr>p_loaded := Some b\<rparr>))))
        (\<lambda>_ s. and_then (p_communicate_load_status E (s\<lparr>last_loaded := time E\<rparr>))
                  (\<lambda>_ s. let s = p_start_filewatcher s in (Inr (loaded s), s))) = (Inr r, s')"
    by (simp add: load_def p_load_def Let_def)
  then show ?thesis
  proof (cases rule: and_thenE)
    case (raised e)
    then show ?thesis by simp
  next
    case (returned v s1)
    note att = attempt_block[OF returned(1)]
    note rep = report_block[OF returned(2)]
    from att obtain evs1 where evs1: "trace s1 = trace ?s0 @ evs1" "emitted evs1 = []"
      by (auto simp: appended_def dest: emitted_quiet)
    from rep obtain m evs2 where m: "trace s' = trace s1 @ Emit m # evs2" "emitted evs2 = []"
      "r = Some True \<longrightarrow> msg_type m = ''mycroft.skills.loaded''
                      \<and> map fst (msg_data m) = [''path'', ''id'', ''name'']"
      "r \<noteq> Some True \<longrightarrow> msg_type m = ''mycroft.skills.loading_failure''
                      \<and> map fst (msg_data m) = [''path'', ''id'']"
      by (elim conjE exE) (rule that; assumption)
    have ev: "emitted (events_during s s') = [m]"
      by (simp add: events_during_def m(1,2) evs1 s0(3))
    have inst: "r \<noteq> Some True \<longrightarrow> cur_instance s' = None"
    proof (cases "is_blacklisted E ?s0")
      case True
      with att have "s1 = p_skip_load ?s0" by simp
      then have "cur_instance s1 = None"
        by (simp add: p_skip_load_def LOG_def p_prepare_for_load_def)
      with rep show ?thesis by simp
    next
      case False
      with att have "p_loaded s1 = Some (cur_instance s1 \<noteq> None)" by simp
      with rep show ?thesis by auto
    qed
    from rep ev inst m(3,4) show ?thesis
      by (auto simp: reports_status_def)
  qed
qed

theorem load_reports_status_witness:
  "fst (load env0 s0) = Inr (Some True)
   \<and> reports_status s0 (Some True) (snd (load env0 s0))
   \<and> cur_instance (snd (load env0 s0)) = Some weather
   \<and> fst (load env_missing s0) = Inr (Some False)
   \<and> reports_status s0 (Some False) (snd (load env_missing s0))
   \<and> cur_instance (snd (load env_missing s0)) = None"
proof -
  have f1: "fst (load env0 s0) = Inr (Some True)"
    by (simp add: load_env0_s0)
  have f2: "fst (load env_missing s0) = Inr (Some False)"
    by (simp add: example_defs model_defs)
  have i1: "cur_instance (snd (load env0 s0)) = Some weather"
    by (simp add: load_env0_s0)
  have i2: "cur_instance (snd (load env_missing s0)) = None"
    by (simp add: example_defs model_defs)
  have ok: "load env0 s0 = (Inr (Some True), snd (load env0 s0))"
    using f1 by (simp add: prod_eq_iff)
  have bad: "load env_missing s0 = (Inr (Some False), snd (load env_missing s0))"
    using f2 by (simp add: prod_eq_iff)
  from load_reports_status[OF ok] load_reports_status[OF bad] f1 f2 i1 i2
  show ?thesis by simp
qed

subsection \<open>Class resolution\<close>

lemma issubclass_refl: "issubclass c c"
  by (cases c) simp

lemma issubclass_size: "issubclass c d \<Longrightarrow> c \<noteq> d \<Longrightarrow> size d < size c"
proof (induction c d rule: issubclass.induct)
  case (1 i n bs d)
  from "1.prems" obtain b where b: "b \<in> set bs" "issubclass b d"
    by (auto simp: list_ex_iff)
  have "size b < size (PyClass i n bs)"
    using b(1) by (induction bs) auto
  moreover have "size d \<le> size b"
    using "1.IH"[OF b(1)] b(2) by (cases "b = d") auto
  ultimately show ?case by simp
qed

lemma issubclass_trans: "issubclass c d \<Longrightarrow> issubclass d e \<Longrightarrow> issubclass c e"
proof (induction c d rule: issubclass.induct)
  case (1 i n bs d)
  show ?case
  proof (cases "PyClass i n bs = d")
    case True
    with "1.prems" show ?thesis by simp
  next
    case False
    with "1.prems" obtain b where b: "b \<in> set bs" "issubclass b d"
      by (auto simp: list_ex_iff)
    from "1.IH"[OF b(1) b(2) "1.prems"(2)] b(1) show ?thesis
      by (auto simp: list_ex_iff)
  qed
qed

lemma issubclass_antisym: "issubclass c d \<Longrightarrow> issubclass d c \<Longrightarrow> c = d"
  using issubclass_size[of c d] issubclass_size[of d c] by fastforce

lemma most_derived_below:
  assumes "d \<in> set cs"
  shows "\<exists>m \<in> set cs. issubclass m d \<and> most_derived cs m"
proof -
  let ?S = "{x \<in> set cs. issubclass x d}"
  have fin: "finite (size ` ?S)" by simp
  have ne: "size ` ?S \<noteq> {}" using assms issubclass_refl by auto
  from Max_in[OF fin ne] obtain m where m: "m \<in> ?S" "size m = Max (size ` ?S)"
    by auto
  have "most_derived cs m"
    unfolding most_derived_def list_ex_iff
  proof (intro notI, elim bexE conjE)
    fix e assume e: "e \<in> set cs" "e \<noteq> m" "issubclass e m"
    then have "issubclass e d" using m(1) issubclass_trans by blast
    with e(1) have "size e \<in> size ` ?S" by simp
    then have "size e \<le> Max (size ` ?S)" using fin Max_ge by blast
    moreover have "size m < size e" using issubclass_size[OF e(3) e(2)] .
    ultimately show False using m(2) by simp
  qed
  with m(1) show ?thesis by blast
qed

lemma remove1_first_after: "x \<notin> set A \<Longrightarrow> remove1 x (A @ x # B) = A @ B"
  by (induction A) auto

lemma discard_supertypes_gen:
  "discard_supertypes suf (filter (most_derived (pre @ suf)) pre @ suf)
     = filter (most_derived (pre @ suf)) (pre @ suf)"
proof (induction suf arbitrary: pre)
  case Nil
  then show ?case by simp
next
  case (Cons x suf)
  let ?orig = "pre @ x # suf"
  let ?cur = "filter (most_derived ?orig) pre @ x # suf"
  have cond: "list_ex (\<lambda>clazz. issubclass clazz x) (filter (\<lambda>clazz. clazz \<noteq> x) ?cur)
                \<longleftrightarrow> \<not> most_derived ?orig x"
  proof
    assume "list_ex (\<lambda>clazz. issubclass clazz x) (filter (\<lambda>clazz. clazz \<noteq> x) ?cur)"
    then obtain d where "d \<in> set ?cur" "d \<noteq> x" "issubclass d x"
      by (auto simp: list_ex_iff)
    then have "d \<in> set ?orig" by auto
    with \<open>d \<noteq> x\<close> \<open>issubclass d x\<close> show "\<not> most_derived ?orig x"
      unfolding most_derived_def list_ex_iff by blast
  next
    assume "\<not> most_derived ?orig x"
    then obtain d where d: "d \<in> set ?orig" "d \<noteq> x" "issubclass d x"
      unfolding most_derived_def list_ex_iff by blast
    from most_derived_below[OF d(1)] obtain m where
      m: "m \<in> set ?orig" "issubclass m d" "most_derived ?orig m" by blast
    have "m \<noteq> x" using m(2) d(2,3) issubclass_antisym by blast
    moreover have "m \<in> set ?cur" using m(1,3) by auto
    moreover have "issubclass m x" using m(2) d(3) issubclass_trans by blast
    ultimately show "list_ex (\<lambda>clazz. issubclass clazz x) (filter (\<lambda>clazz. clazz \<noteq> x) ?cur)"
      by (auto simp: list_ex_iff)
  qed
  have IH: "discard_supertypes suf (filter (most_derived ?orig) (pre @ [x]) @ suf)
              = filter (most_derived ?orig) ?orig"
    using Cons.IH[of "pre @ [x]"] by simp
  show ?case
  proof (cases "most_derived ?orig x")
    case True
    then show ?thesis using cond IH by simp
  next
    case False
    then have "x \<notin> set (filter (most_derived ?orig) pre)" by simp
    then have "remove1 x ?cur = filter (most_derived ?orig) pre @ suf"
      by (rule remove1_first_after)
    then show ?thesis using cond IH False by simp
  qed
qed

lemma discard_supertypes_eq:
  "discard_supertypes cs cs = filter (most_derived cs) cs"
  using discard_supertypes_gen[of cs "[]"] by simp

lemma set_collect_candidates:
  "set (collect_candidates B items) =
     {c. \<exists>name. (name, ClassObj c) \<in> set items \<and> (\<exists>b\<in>set B. issubclass c b) \<and> c \<notin> set B}"
  by (induction B items rule: collect_candidates.induct) (auto simp: list_ex_iff)

lemma most_derived_nonempty:
  "cs \<noteq> [] \<Longrightarrow> filter (most_derived cs) cs \<noteq> []"
proof -
  assume "cs \<noteq> []"
  then obtain d where "d \<in> set cs" by (cases cs) auto
  from most_derived_below[OF this] obtain m where "m \<in> set cs" "most_derived cs m" by blast
  then show ?thesis by (auto simp: filter_empty_conv)
qed

text \<open>
  Claim C3. \<^verbatim>\<open>get_skill_class\<close> returns a callable input unchanged. For a module, the
  candidates are exactly the classes of its namespace that subclass a known skill base
  class and are none of the base classes; every candidate of which another candidate is
  a subclass is discarded, so that the most-derived classes remain; the first remaining
  class is returned, with a warning exactly when more than one remains; and \<^verbatim>\<open>None\<close> is
  returned exactly when there is no candidate.
\<close>

theorem get_skill_class_resolution:
  "(callable obj \<longrightarrow> get_skill_class B (Plugin obj) = (Inr (Some obj), []))
   \<and> (let candidates = collect_candidates B (mod_dict m);
           remaining = filter (most_derived candidates) candidates
       in set candidates =
            {c. \<exists>name. (name, ClassObj c) \<in> set (mod_dict m)
                  \<and> (\<exists>b\<in>set B. issubclass c b) \<and> c \<notin> set B}
        \<and> fst (get_skill_class B (Module m)) =
            Inr (case remaining of [] \<Rightarrow> None | c # cs \<Rightarrow> Some (ClassObj c))
        \<and> (remaining = [] \<longleftrightarrow> candidates = [])
        \<and> ((Warning, ''Multiple skills found in a single file!'')
              \<in> set (snd (get_skill_class B (Module m))) \<longleftrightarrow> 1 < length remaining))"
proof -
  let ?cs = "collect_candidates B (mod_dict m)"
  let ?rem = "filter (most_derived ?cs) ?cs"
  have a: "callable obj \<longrightarrow> get_skill_class B (Plugin obj) = (Inr (Some obj), [])"
    by (simp add: get_skill_class_def)
  have b: "fst (get_skill_class B (Module m)) =
             Inr (case ?rem of [] \<Rightarrow> None | c # cs \<Rightarrow> Some (ClassObj c))"
    by (simp add: get_skill_class_def Let_def discard_supertypes_eq split: list.splits)
  have c: "?rem = [] \<longleftrightarrow> ?cs = []"
    using most_derived_nonempty[of ?cs] by auto
  have d: "(Warning, ''Multiple skills found in a single file!'')
              \<in> set (snd (get_skill_class B (Module m))) \<longleftrightarrow> 1 < length ?rem"
    by (simp add: get_skill_class_def Let_def discard_supertypes_eq split: list.splits)
  show ?thesis
    unfolding Let_def by (intro conjI a b c d set_collect_candidates)
qed

theorem get_skill_class_resolution_witness:
  "callable (ClassObj MySkill)
   \<and> get_skill_class [OVOSSkill] (Plugin (ClassObj MySkill)) = (Inr (Some (ClassObj MySkill)), [])
   \<and> collect_candidates [OVOSSkill] (mod_dict two_class_module) = [LocalBase, MySkill]
   \<and> fst (get_skill_class [OVOSSkill] (Module two_class_module)) = Inr (Some (ClassObj MySkill))
   \<and> fst (get_skill_class [OVOSSkill] (Module ambiguous_module)) = Inr (Some (ClassObj MySkill))
   \<and> (Warning, ''Multiple skills found in a single file!'')
         \<in> set (snd (get_skill_class [OVOSSkill] (Module ambiguous_module)))"
proof -
  note class_defs = LocalBase_def MySkill_def OtherSkill_def OVOSSkill_def
  have cands: "collect_candidates [OVOSSkill] (mod_dict two_class_module) = [LocalBase, MySkill]"
    by (simp add: two_class_module_def class_defs)
  have rem: "filter (most_derived [LocalBase, MySkill]) [LocalBase, MySkill] = [MySkill]"
    by (simp add: most_derived_def class_defs)
  have cands2: "collect_candidates [OVOSSkill] (mod_dict ambiguous_module) = [MySkill, OtherSkill]"
    by (simp add: ambiguous_module_def class_defs)
  have rem2: "filter (most_derived [MySkill, OtherSkill]) [MySkill, OtherSkill]
                = [MySkill, OtherSkill]"
    by (simp add: most_derived_def class_defs)
  have "fst (get_skill_class [OVOSSkill] (Module two_class_module)) =
          Inr (case filter (most_derived [LocalBase, MySkill]) [LocalBase, MySkill] of
                 [] \<Rightarrow> None | c # cs \<Rightarrow> Some (ClassObj c))"
    using get_skill_class_resolution[of "ClassObj MySkill" "[OVOSSkill]" two_class_module]
    unfolding Let_def cands by (elim conjE)
  then have one: "fst (get_skill_class [OVOSSkill] (Module two_class_module))
               = Inr (Some (ClassObj MySkill))"
    by (simp only: rem list.case)
  have "fst (get_skill_class [OVOSSkill] (Module ambiguous_module)) =
          Inr (case filter (most_derived [MySkill, OtherSkill]) [MySkill, OtherSkill] of
                 [] \<Rightarrow> None | c # cs \<Rightarrow> Some (ClassObj c))
        \<and> ((Warning, ''Multiple skills found in a single file!'')
              \<in> set (snd (get_skill_class [OVOSSkill] (Module ambiguous_module)))
            \<longleftrightarrow> 1 < length (filter (most_derived [MySkill, OtherSkill])
                                      [MySkill, OtherSkill]))"
    using get_skill_class_resolution[of "ClassObj MySkill" "[OVOSSkill]" ambiguous_module]
    unfolding Let_def cands2 by (elim conjE) (intro conjI)
  then have two: "fst (get_skill_class [OVOSSkill] (Module ambiguous_module))
                    = Inr (Some (ClassObj MySkill))
        \<and> (Warning, ''Multiple skills found in a single file!'')
              \<in> set (snd (get_skill_class [OVOSSkill] (Module ambiguous_module)))"
    by (simp only: rem2 list.case) simp
  have plug: "get_skill_class [OVOSSkill] (Plugin (ClassObj MySkill))
                   = (Inr (Some (ClassObj MySkill)), [])"
    using get_skill_class_resolution[of "ClassObj MySkill" "[OVOSSkill]" two_class_module]
    by simp
  from one two plug cands show ?thesis by simp
qed

subsection \<open>Reload that is not permitted\<close>

lemma s_loaded_eq:
  "s_loaded =
     s0\<lparr>sys_modules :=
          [(''weather'', \<lparr>mod_name = ''weather'', mod_file = ''/skills/weather/__init__.py'',
              mod_dict = [(''WeatherSkill'', ClassObj WeatherSkill)]\<rparr>)],
        trace :=
          [Log Info ''ATTEMPTING TO LOAD SKILL'', Log Debug ''Skill module'',
           ExecModule ''weather'' ''/skills/weather/__init__.py'',
           Log Debug ''Loading skill class'',
           CallCreator (ClassObj WeatherSkill) (Modern 7 (Some ''weather'')),
           Emit \<lparr>msg_type = ''mycroft.skills.loaded'',
                  msg_data = [(''path'', Some ''/skills/weather''), (''id'', Some ''weather''),
                              (''name'', Some ''WeatherSkill'')]\<rparr>,
           Log Info ''loaded successfully'',
           WatcherStart (FileWatcher [Some ''/skills/weather''] True)],
        p_loaded := Some True, load_attempted := True, last_loaded := 100,
        cur_instance := Some weather,
        p_watchdog := Some (FileWatcher [Some ''/skills/weather''] True),
        skill_module := Some \<lparr>mod_name = ''weather'', mod_file = ''/skills/weather/__init__.py'',
              mod_dict = [(''WeatherSkill'', ClassObj WeatherSkill)]\<rparr>\<rparr>"
  by (simp add: s_loaded_def load_env0_s0)

text \<open>
  Claim C6. When the current instance exists and its reload flag is false,
  \<^verbatim>\<open>reload()\<close> returns \<^verbatim>\<open>False\<close> and does nothing but write two log lines: no bus
  message is emitted, the instance stays, and neither \<^verbatim>\<open>sys.modules\<close> nor any
  attribute of the loader (loaded flag, module, watcher, timestamp) changes.
\<close>

theorem reload_denied_is_noop:
  assumes "cur_instance s = Some i" and "\<not> reload_skill i"
  shows "reload E s =
           (Inr (Some False),
            s\<lparr>trace := trace s @ [Log Info ''ATTEMPTING TO RELOAD SKILL'',
                                   Log Info ''skill does not allow reloading!'']\<rparr>)
         \<and> emitted (events_during s (snd (reload E s))) = []
         \<and> cur_instance (snd (reload E s)) = cur_instance s
         \<and> sys_modules (snd (reload E s)) = sys_modules s
         \<and> loader_unchanged s (snd (reload E s))"
  using assms
  by (simp add: reload_def LOG_def Let_def events_during_def loader_unchanged_def)

theorem reload_denied_is_noop_witness:
  "cur_instance s_pinned = Some (weather\<lparr>reload_skill := False\<rparr>)
   \<and> reload env0 s_pinned =
       (Inr (Some False),
        s_pinned\<lparr>trace := trace s_pinned @ [Log Info ''ATTEMPTING TO RELOAD SKILL'',
                                            Log Info ''skill does not allow reloading!'']\<rparr>)
   \<and> p_loaded (snd (reload env0 s_pinned)) = Some True
   \<and> p_watchdog (snd (reload env0 s_pinned)) = Some (FileWatcher [Some ''/skills/weather''] True)"
proof -
  have h1: "cur_instance s_pinned = Some (weather\<lparr>reload_skill := False\<rparr>)"
    by (simp add: s_pinned_def)
  have h2: "\<not> reload_skill (weather\<lparr>reload_skill := False\<rparr>)"
    by simp
  have f: "p_loaded s_pinned = Some True"
    "p_watchdog s_pinned = Some (FileWatcher [Some ''/skills/weather''] True)"
    by (simp_all add: s_pinned_def s_loaded_eq)
  from reload_denied_is_noop[OF h1 h2, of env0] h1 f show ?thesis
    by (simp add: loader_unchanged_def)
qed

subsection \<open>Unloading\<close>

lemma shutdown_returns:
  assumes "cur_instance s = Some i"
      and "\<forall>e. default_shutdown E i = Some e \<longrightarrow> isinstance_Exception e"
  shows "p_execute_instance_shutdown E s =
           (Inr (),
            s\<lparr>trace := trace s @
                  [CallShutdown i,
                   if default_shutdown E i = None then Log Info ''shut down successfully''
                   else Log Exception ''An error occurred while shutting down''],
              cur_instance := None\<rparr>)"
  using assms
  by (cases "default_shutdown E i") (simp_all add: p_execute_instance_shutdown_def LOG_def Let_def)

lemma skill_directory_update [simp]:
  "skill_directory (s\<lparr>trace := t\<rparr>) = skill_directory s"
  "skill_directory (s\<lparr>sys_modules := ms\<rparr>) = skill_directory s"
  "skill_directory (s\<lparr>p_watchdog := w\<rparr>) = skill_directory s"
  "skill_directory (s\<lparr>p_loaded := l\<rparr>) = skill_directory s"
  "skill_directory (s\<lparr>load_attempted := a\<rparr>) = skill_directory s"
  "skill_directory (s\<lparr>last_loaded := tm\<rparr>) = skill_directory s"
  "skill_directory (s\<lparr>skill_module := m\<rparr>) = skill_directory s"
  "skill_directory (s\<lparr>active := ac\<rparr>) = skill_directory s"
  "skill_directory (s\<lparr>p_skill_class := k\<rparr>) = skill_directory s"
  "skill_directory (s\<lparr>cur_instance := None\<rparr>) = p_skill_directory s"
  by (simp_all add: skill_directory_def)

lemma skill_id_update [simp]:
  "skill_id (s\<lparr>trace := t\<rparr>) = skill_id s"
  "skill_id (s\<lparr>sys_modules := ms\<rparr>) = skill_id s"
  "skill_id (s\<lparr>p_watchdog := w\<rparr>) = skill_id s"
  "skill_id (s\<lparr>p_loaded := l\<rparr>) = skill_id s"
  "skill_id (s\<lparr>load_attempted := a\<rparr>) = skill_id s"
  "skill_id (s\<lparr>last_loaded := tm\<rparr>) = skill_id s"
  "skill_id (s\<lparr>skill_module := m\<rparr>) = skill_id s"
  "skill_id (s\<lparr>active := ac\<rparr>) = skill_id s"
  "skill_id (s\<lparr>p_skill_class := k\<rparr>) = skill_id s"
  by (simp_all add: skill_id_def cong: if_cong)

lemma skill_under_instance [simp]:
  "skill_id (s\<lparr>trace := t, cur_instance := c\<rparr>) = skill_id (s\<lparr>cur_instance := c\<rparr>)"
  "skill_directory (s\<lparr>trace := t, cur_instance := c\<rparr>)
     = skill_directory (s\<lparr>cur_instance := c\<rparr>)"
  "skill_id (s\<lparr>p_watchdog := w, cur_instance := c\<rparr>) = skill_id (s\<lparr>cur_instance := c\<rparr>)"
  "skill_directory (s\<lparr>p_watchdog := w, cur_instance := c\<rparr>)
     = skill_directory (s\<lparr>cur_instance := c\<rparr>)"
  by (simp_all add: skill_id_def skill_directory_def cong: if_cong)

lemma skill_id_cong:
  "p_skill_id a = p_skill_id b \<Longrightarrow> p_skill_directory a = p_skill_directory b \<Longrightarrow>
   cur_instance a = cur_instance b \<Longrightarrow> skill_id a = skill_id b"
  by (simp add: skill_id_def skill_directory_def cong: if_cong)

lemma is_blacklisted_cong:
  "p_skill_id a = p_skill_id b \<Longrightarrow> p_skill_directory a = p_skill_directory b \<Longrightarrow>
   cur_instance a = cur_instance b \<Longrightarrow> is_blacklisted E a = is_blacklisted E b"
  by (simp add: is_blacklisted_def skill_id_cong[of a b])

lemma watchdog_already_none: "p_watchdog x = None \<Longrightarrow> x\<lparr>p_watchdog := None\<rparr> = x"
  by (cases x) simp

text \<open>\<open>p_unload\<close> on a live instance whose hook raises nothing beyond \<open>Exception\<close>.\<close>

lemma p_unload_returns:
  assumes "cur_instance s = Some i"
      and "\<forall>e. default_shutdown E i = Some e \<longrightarrow> isinstance_Exception e"
  shows "p_unload E s =
           (Inr (),
            s\<lparr>trace := trace s @
                  ((case p_watchdog s of Some w \<Rightarrow> [WatcherShutdown w] | None \<Rightarrow> []) @
                   [CallShutdown i,
                    if default_shutdown E i = None then Log Info ''shut down successfully''
                    else Log Exception ''An error occurred while shutting down''] @
                   (if debug E
                    then GcCollect #
                         (if getrefcount E None - 2 > 0
                          then [Log Warning ''there are still references remaining'']
                          else [])
                    else [])) @
                  [Emit \<lparr>msg_type = ''mycroft.skills.shutdown'',
                         msg_data = [(''path'', p_skill_directory s),
                                     (''id'', skill_id (s\<lparr>cur_instance := None\<rparr>))]\<rparr>],
              cur_instance := None, p_watchdog := None\<rparr>)"
proof -
  let ?s1 = "case p_watchdog s of
               Some w \<Rightarrow> s\<lparr>trace := trace s @ [WatcherShutdown w], p_watchdog := None\<rparr>
             | None \<Rightarrow> s"
  have i1: "cur_instance ?s1 = Some i" using assms(1) by (simp split: option.splits)
  show ?thesis
    unfolding p_unload_def Let_def shutdown_returns[OF i1 assms(2)]
    by (cases "p_watchdog s")
       (simp_all add: p_emit_skill_shutdown_event_def emit_def p_garbage_collect_def LOG_def
         Let_def watchdog_already_none)
qed

text \<open>
  Claim C5 says that \<^verbatim>\<open>unload()\<close> after a successful \<^verbatim>\<open>load()\<close> tears down the
  watcher, emits a shutdown message and never lets a teardown exception out. On the
  weather skill \<^verbatim>\<open>unload()\<close> returns with the watcher still held and without any bus
  message; and when the teardown hook is interrupted from the keyboard, the interrupt
  leaves \<^verbatim>\<open>unload()\<close> and the instance stays.
\<close>

theorem unload_counterexample:
  "fst (load env0 s0) = Inr (Some True)
   \<and> fst (unload env0 s_loaded) = Inr ()
   \<and> p_watchdog (snd (unload env0 s_loaded)) = Some (FileWatcher [Some ''/skills/weather''] True)
   \<and> emitted (events_during s_loaded (snd (unload env0 s_loaded))) = []
   \<and> fst (unload env_interrupted_shutdown s_loaded) = Inl KeyboardInterrupt
   \<and> cur_instance (snd (unload env_interrupted_shutdown s_loaded)) = Some weather"
proof -
  have a: "fst (load env0 s0) = Inr (Some True)"
    by (simp add: load_env0_s0)
  have b: "unload env0 s_loaded =
      (Inr (), s_loaded\<lparr>trace := trace s_loaded @
                 [CallShutdown weather, Log Info ''shut down successfully''],
               cur_instance := None\<rparr>)"
    by (simp add: s_loaded_eq unload_def p_execute_instance_shutdown_def LOG_def env0_def)
  have c: "unload env_interrupted_shutdown s_loaded =
      (Inl KeyboardInterrupt, s_loaded\<lparr>trace := trace s_loaded @ [CallShutdown weather]\<rparr>)"
    by (simp add: s_loaded_eq unload_def p_execute_instance_shutdown_def LOG_def env0_def
        env_interrupted_shutdown_def)
  have d: "p_watchdog s_loaded = Some (FileWatcher [Some ''/skills/weather''] True)"
    "cur_instance s_loaded = Some weather"
    by (simp_all add: s_loaded_eq)
  show ?thesis
    by (simp add: a b c d events_during_def)
qed

text \<open>
  Claim C5, amended. With no live instance \<^verbatim>\<open>unload()\<close> does nothing. With a live
  instance whose teardown hook returns or raises an exception derived from
  \<^verbatim>\<open>Exception\<close>, \<^verbatim>\<open>unload()\<close> returns normally, has called the hook, written one log
  line and released the instance, and has changed nothing else: the watcher stays and no
  bus message is emitted; a second \<^verbatim>\<open>unload()\<close> is a no-op. Tearing down the watcher
  first and emitting \<^verbatim>\<open>mycroft.skills.shutdown\<close> with the keys path and id last is what
  \<^verbatim>\<open>_unload()\<close>, the first step of \<^verbatim>\<open>reload()\<close>, does.
\<close>

theorem unload_amended:
  "(cur_instance s = None \<longrightarrow> unload E s = (Inr (), s))
   \<and> (\<forall>i. cur_instance s = Some i
            \<and> (\<forall>e. default_shutdown E i = Some e \<longrightarrow> isinstance_Exception e) \<longrightarrow>
          unload E s =
            (Inr (),
             s\<lparr>trace := trace s @
                   [CallShutdown i,
                    if default_shutdown E i = None then Log Info ''shut down successfully''
                    else Log Exception ''An error occurred while shutting down''],
               cur_instance := None\<rparr>)
          \<and> unload E (snd (unload E s)) = (Inr (), snd (unload E s))
          \<and> (\<exists>evs. p_unload E s =
                (Inr (),
                 s\<lparr>trace := trace s @ evs @
                       [Emit \<lparr>msg_type = ''mycroft.skills.shutdown'',
                              msg_data = [(''path'', p_skill_directory s),
                                          (''id'', skill_id (s\<lparr>cur_instance := None\<rparr>))]\<rparr>],
                   cur_instance := None, p_watchdog := None\<rparr>)
               \<and> CallShutdown i \<in> set evs \<and> emitted evs = []
               \<and> (\<forall>w. p_watchdog s = Some w \<longrightarrow> hd evs = WatcherShutdown w)))"
proof (intro conjI allI impI)
  assume "cur_instance s = None"
  then show "unload E s = (Inr (), s)" by (simp add: unload_def)
next
  fix i
  assume h: "cur_instance s = Some i
    \<and> (\<forall>e. default_shutdown E i = Some e \<longrightarrow> isinstance_Exception e)"
  then have i: "cur_instance s = Some i"
    and ok: "\<forall>e. default_shutdown E i = Some e \<longrightarrow> isinstance_Exception e" by simp_all
  show u: "unload E s =
            (Inr (),
             s\<lparr>trace := trace s @
                   [CallShutdown i,
                    if default_shutdown E i = None then Log Info ''shut down successfully''
                    else Log Exception ''An error occurred while shutting down''],
               cur_instance := None\<rparr>)"
    using shutdown_returns[OF i ok] i by (simp add: unload_def)
  show "unload E (snd (unload E s)) = (Inr (), snd (unload E s))"
    by (simp add: u) (simp add: unload_def)
  let ?evs = "(case p_watchdog s of Some w \<Rightarrow> [WatcherShutdown w] | None \<Rightarrow> []) @
                   [CallShutdown i,
                    if default_shutdown E i = None then Log Info ''shut down successfully''
                    else Log Exception ''An error occurred while shutting down''] @
                   (if debug E
                    then GcCollect #
                         (if getrefcount E None - 2 > 0
                          then [Log Warning ''there are still references remaining'']
                          else [])
                    else [])"
  have e1: "CallShutdown i \<in> set ?evs" by simp
  have e2: "emitted ?evs = []" by (simp split: option.splits)
  have e3: "\<forall>w. p_watchdog s = Some w \<longrightarrow> hd ?evs = WatcherShutdown w" by simp
  show "\<exists>evs. p_unload E s =
                (Inr (),
                 s\<lparr>trace := trace s @ evs @
                       [Emit \<lparr>msg_type = ''mycroft.skills.shutdown'',
                              msg_data = [(''path'', p_skill_directory s),
                                          (''id'', skill_id (s\<lparr>cur_instance := None\<rparr>))]\<rparr>],
                   cur_instance := None, p_watchdog := None\<rparr>)
               \<and> CallShutdown i \<in> set evs \<and> emitted evs = []
               \<and> (\<forall>w. p_watchdog s = Some w \<longrightarrow> hd evs = WatcherShutdown w)"
    by (rule exI[of _ ?evs]) (intro conjI p_unload_returns[OF i ok] e1 e2 e3)
qed

theorem unload_amended_witness:
  "cur_instance s_loaded = Some weather
   \<and> default_shutdown env_bad_shutdown weather = Some (SkillError 1)
   \<and> unload env_bad_shutdown s_loaded =
       (Inr (),
        s_loaded\<lparr>trace := trace s_loaded @
                   [CallShutdown weather,
                    Log Exception ''An error occurred while shutting down''],
                 cur_instance := None\<rparr>)
   \<and> unload env_bad_shutdown (snd (unload env_bad_shutdown s_loaded))
       = (Inr (), snd (unload env_bad_shutdown s_loaded))"
proof -
  have i: "cur_instance s_loaded = Some weather"
    by (simp add: s_loaded_eq)
  have d: "default_shutdown env_bad_shutdown weather = Some (SkillError 1)"
    by (simp add: env_bad_shutdown_def)
  have ok: "\<forall>e. default_shutdown env_bad_shutdown weather = Some e \<longrightarrow> isinstance_Exception e"
    by (simp add: d)
  note t = unload_amended[of s_loaded env_bad_shutdown, THEN conjunct2, rule_format,
      of weather, OF conjI[OF i ok]]
  have t1: "unload env_bad_shutdown s_loaded =
       (Inr (),
        s_loaded\<lparr>trace := trace s_loaded @
                   [CallShutdown weather,
                    Log Exception ''An error occurred while shutting down''],
                 cur_instance := None\<rparr>)"
    using t[THEN conjunct1] by (simp add: d)
  show ?thesis
    by (intro conjI i d t1 t[THEN conjunct2, THEN conjunct1])
qed

subsection \<open>What a load or a reload does to instances and watchers\<close>

lemma report_block_any:
  assumes "and_then (p_communicate_load_status E (s1\<lparr>last_loaded := time E\<rparr>))
             (\<lambda>_ s. let s = p_start_filewatcher s in (Inr (loaded s), s)) = (r, s')"
  shows "appended (\<lambda>e. \<not> is_shutdown_call e \<and> \<not> is_creator_call e) s1 s'
         \<and> (\<forall>b. r = Inr b \<longrightarrow>
               (case p_watchdog s1 of
                  Some w \<Rightarrow> p_watchdog s' = Some w
                            \<and> filter is_watcher_start (events_during s1 s') = []
                | None \<Rightarrow> \<exists>w. p_watchdog s' = Some w
                            \<and> filter is_watcher_start (events_during s1 s') = [WatcherStart w]))"
  using assms
  by (auto simp: p_communicate_load_status_def p_start_filewatcher_def loaded_def LOG_def
      emit_def Let_def appended_def events_during_def split: if_splits option.splits)

lemma quiet_filters:
  assumes "list_all (\<lambda>e. \<not> is_emit e \<and> \<not> is_shutdown_call e \<and> \<not> is_watcher_start e) evs"
  shows "filter is_watcher_start evs = []" and "list_all (\<lambda>e. \<not> is_shutdown_call e) evs"
  using assms by (auto simp: list_all_iff filter_empty_conv)

lemma p_load_sound:
  assumes "p_load E s = (r, s')"
  shows "appended (\<lambda>e. \<not> is_shutdown_call e) s s'
         \<and> (\<forall>b. r = Inr b \<longrightarrow>
               (case p_watchdog s of
                  Some w \<Rightarrow> p_watchdog s' = Some w
                            \<and> filter is_watcher_start (events_during s s') = []
                | None \<Rightarrow> \<exists>w. p_watchdog s' = Some w
                            \<and> filter is_watcher_start (events_during s s') = [WatcherStart w]))"
proof -
  let ?s0 = "p_prepare_for_load s"
  have s0: "trace ?s0 = trace s" "p_watchdog ?s0 = p_watchdog s"
    by (simp_all add: p_prepare_for_load_def)
  from assms have "and_then
        (if is_blacklisted E ?s0 then (Inr (), p_skip_load ?s0)
         else and_then (p_load_skill_source E ?s0)
                (\<lambda>m s. and_then (p_create_skill_instance E None (s\<lparr>skill_module := m\<rparr>))
                          (\<lambda>b s. (Inr (), s\<lparr>p_loaded := Some b\<rparr>))))
        (\<lambda>_ s. and_then (p_communicate_load_status E (s\<lparr>last_loaded := time E\<rparr>))
                  (\<lambda>_ s. let s = p_start_filewatcher s in (Inr (loaded s), s))) = (r, s')"
    by (simp add: p_load_def Let_def)
  then show ?thesis
  proof (cases rule: and_thenE)
    case (raised e)
    from attempt_block[OF raised(1)] raised(2) s0 show ?thesis
      by (auto simp: appended_def dest: quiet_filters(2))
  next
    case (returned v s1)
    note att = attempt_block[OF returned(1)]
    note rep = report_block_any[OF returned(2)]
    from att obtain evs1 where evs1: "trace s1 = trace s @ evs1"
      "list_all (\<lambda>e. \<not> is_emit e \<and> \<not> is_shutdown_call e \<and> \<not> is_watcher_start e) evs1"
      by (auto simp: appended_def s0)
    from rep obtain evs2 where evs2: "trace s' = trace s1 @ evs2"
      "list_all (\<lambda>e. \<not> is_shutdown_call e \<and> \<not> is_creator_call e) evs2"
      by (auto simp: appended_def)
    have ev: "events_during s s' = evs1 @ evs2" "events_during s1 s' = evs2"
      by (simp_all add: events_during_def evs1 evs2)
    have a: "appended (\<lambda>e. \<not> is_shutdown_call e) s s'"
      using evs1 evs2 quiet_filters(2)[OF evs1(2)]
      by (auto simp: appended_def list_all_iff)
    have w: "p_watchdog s1 = p_watchdog s" using att s0 by simp
    from rep a show ?thesis
      by (auto simp: ev w quiet_filters(1)[OF evs1(2)] split: option.splits)
  qed
qed

lemma p_unload_events:
  assumes "cur_instance s = Some i" and "p_unload E s = (r, s1)"
  shows "\<exists>pre post. trace s1 = trace s @ pre @ CallShutdown i # post
           \<and> list_all (\<lambda>e. \<not> is_creator_call e \<and> \<not> is_watcher_start e) pre
           \<and> list_all (\<lambda>e. \<not> is_shutdown_call e \<and> \<not> is_creator_call e
                             \<and> \<not> is_watcher_start e) post
           \<and> p_watchdog s1 = None
           \<and> (\<forall>w. p_watchdog s = Some w \<longrightarrow> pre = [WatcherShutdown w])
           \<and> (p_watchdog s = None \<longrightarrow> pre = [])
           \<and> (\<forall>v. r = Inr v \<longrightarrow> cur_instance s1 = None)"
proof (cases "\<forall>e. default_shutdown E i = Some e \<longrightarrow> isinstance_Exception e")
  case True
  let ?pre = "case p_watchdog s of Some w \<Rightarrow> [WatcherShutdown w] | None \<Rightarrow> []"
  let ?post = "[if default_shutdown E i = None then Log Info ''shut down successfully''
                else Log Exception ''An error occurred while shutting down''] @
               (if debug E
                then GcCollect #
                     (if getrefcount E None - 2 > 0
                      then [Log Warning ''there are still references remaining'']
                      else [])
                else []) @
               [Emit \<lparr>msg_type = ''mycroft.skills.shutdown'',
                      msg_data = [(''path'', p_skill_directory s),
                                  (''id'', skill_id (s\<lparr>cur_instance := None\<rparr>))]\<rparr>]"
  from p_unload_returns[OF assms(1) True] assms(2)
  have "trace s1 = trace s @ ?pre @ CallShutdown i # ?post" "p_watchdog s1 = None"
    "cur_instance s1 = None"
    by auto
  moreover have "list_all (\<lambda>e. \<not> is_creator_call e \<and> \<not> is_watcher_start e) ?pre"
    by (simp split: option.splits)
  moreover have "list_all (\<lambda>e. \<not> is_shutdown_call e \<and> \<not> is_creator_call e
                             \<and> \<not> is_watcher_start e) ?post"
    by simp
  moreover have "\<forall>w. p_watchdog s = Some w \<longrightarrow> ?pre = [WatcherShutdown w]"
    "p_watchdog s = None \<longrightarrow> ?pre = []" by simp_all
  ultimately show ?thesis
    apply -
    apply (rule exI[of _ ?pre], rule exI[of _ ?post])
    apply (intro conjI; assumption?)
    apply simp
    done
next
  case False
  then obtain e where e: "default_shutdown E i = Some e" "\<not> isinstance_Exception e" by blast
  let ?pre = "case p_watchdog s of Some w \<Rightarrow> [WatcherShutdown w] | None \<Rightarrow> []"
  from assms e have "trace s1 = trace s @ ?pre @ CallShutdown i # []" "p_watchdog s1 = None"
    "r = Inl e"
    by (auto simp: p_unload_def p_execute_instance_shutdown_def Let_def split: option.splits)
  moreover have "list_all (\<lambda>e. \<not> is_creator_call e \<and> \<not> is_watcher_start e) ?pre"
    by (simp split: option.splits)
  moreover have "\<forall>w. p_watchdog s = Some w \<longrightarrow> ?pre = [WatcherShutdown w]"
    "p_watchdog s = None \<longrightarrow> ?pre = []" by simp_all
  ultimately show ?thesis
    apply -
    apply (rule exI[of _ ?pre], rule exI[of _ "[]"])
    apply simp
    done
qed

lemma load_as_p_load:
  "load E s = (r, s') \<Longrightarrow>
     p_load E (LOG Info ''ATTEMPTING TO LOAD SKILL'' s) = (r, s')
     \<and> trace (LOG Info ''ATTEMPTING TO LOAD SKILL'' s)
         = trace s @ [Log Info ''ATTEMPTING TO LOAD SKILL'']
     \<and> p_watchdog (LOG Info ''ATTEMPTING TO LOAD SKILL'' s) = p_watchdog s"
  by (simp add: load_def LOG_def)

lemma filter_none:
  "list_all (\<lambda>e. \<not> P e) evs \<Longrightarrow> filter P evs = []"
  by (simp add: list_all_iff filter_empty_conv)

lemma unload_keeps_watcher:
  assumes "unload E s = (r, s')"
  shows "p_watchdog s' = p_watchdog s"
  using assms
  by (cases "cur_instance s"; cases "default_shutdown E (the (cur_instance s))")
     (auto simp: unload_def p_execute_instance_shutdown_def LOG_def Let_def split: if_splits)

text \<open>
  Claim C8 says that \<^verbatim>\<open>load()\<close>, like \<^verbatim>\<open>reload()\<close>, creates a new instance only
  after the previous one has been shut down. A second \<^verbatim>\<open>load()\<close> on the loaded
  weather skill calls the creator again and succeeds, and no teardown hook is called.
\<close>

theorem second_load_skips_teardown:
  "cur_instance s_loaded = Some weather
   \<and> fst (load env0 s_loaded) = Inr (Some True)
   \<and> filter is_creator_call (events_during s_loaded (snd (load env0 s_loaded)))
       = [CallCreator (ClassObj WeatherSkill) (Modern 7 (Some ''weather''))]
   \<and> filter is_shutdown_call (events_during s_loaded (snd (load env0 s_loaded))) = []"
  by (simp add: s_loaded_eq events_during_def example_defs model_defs)

text \<open>
  Claim C8, amended. The loader holds one instance reference. \<^verbatim>\<open>reload()\<close> on a live
  instance that permits it calls that instance's teardown hook before any creator is
  called, and calls no teardown hook after that. \<^verbatim>\<open>load()\<close> never calls a teardown
  hook: it only drops the reference to the previous instance.
\<close>

theorem instance_replacement_amended:
  "(load E s = (r1, s1) \<longrightarrow> filter is_shutdown_call (events_during s s1) = [])
   \<and> (\<forall>i. cur_instance s = Some i \<and> reload_skill i \<and> reload E s = (r2, s2) \<longrightarrow>
          (\<exists>pre post. events_during s s2 = pre @ CallShutdown i # post
             \<and> filter is_creator_call pre = [] \<and> filter is_shutdown_call post = []))"
proof (intro conjI allI impI)
  assume "load E s = (r1, s1)"
  note l = load_as_p_load[OF this]
  from p_load_sound[OF l[THEN conjunct1]] l
  obtain evs where "trace s1 = trace s @ Log Info ''ATTEMPTING TO LOAD SKILL'' # evs"
    "list_all (\<lambda>e. \<not> is_shutdown_call e) evs"
    by (auto simp: appended_def)
  then show "filter is_shutdown_call (events_during s s1) = []"
    by (simp add: events_during_def filter_none)
next
  fix i
  assume h: "cur_instance s = Some i \<and> reload_skill i \<and> reload E s = (r2, s2)"
  let ?sL = "LOG Info ''ATTEMPTING TO RELOAD SKILL'' s"
  have sL: "cur_instance ?sL = Some i" "trace ?sL = trace s @ [Log Info ''ATTEMPTING TO RELOAD SKILL'']"
    using h by (simp_all add: LOG_def)
  from h have "and_then (p_unload E ?sL) (\<lambda>_ s. p_load E s) = (r2, s2)"
    by (auto simp: reload_def Let_def LOG_def)
  then show "\<exists>pre post. events_during s s2 = pre @ CallShutdown i # post
             \<and> filter is_creator_call pre = [] \<and> filter is_shutdown_call post = []"
  proof (cases rule: and_thenE)
    case (raised e)
    from p_unload_events[OF sL(1) raised(1)] obtain pre post where
      pp: "trace s2 = trace ?sL @ pre @ CallShutdown i # post"
        "list_all (\<lambda>e. \<not> is_creator_call e \<and> \<not> is_watcher_start e) pre"
        "list_all (\<lambda>e. \<not> is_shutdown_call e \<and> \<not> is_creator_call e
                             \<and> \<not> is_watcher_start e) post"
      by blast
    have "events_during s s2 = (Log Info ''ATTEMPTING TO RELOAD SKILL'' # pre)
            @ CallShutdown i # post"
      by (simp add: events_during_def pp(1) sL(2))
    moreover have "filter is_creator_call (Log Info ''ATTEMPTING TO RELOAD SKILL'' # pre) = []"
      using pp(2) by (simp add: list_all_iff filter_empty_conv)
    moreover have "filter is_shutdown_call post = []"
      using pp(3) by (simp add: list_all_iff filter_empty_conv)
    ultimately show ?thesis by blast
  next
    case (returned v s3)
    from p_unload_events[OF sL(1) returned(1)] obtain pre post where
      pp: "trace s3 = trace ?sL @ pre @ CallShutdown i # post"
        "list_all (\<lambda>e. \<not> is_creator_call e \<and> \<not> is_watcher_start e) pre"
        "list_all (\<lambda>e. \<not> is_shutdown_call e \<and> \<not> is_creator_call e
                             \<and> \<not> is_watcher_start e) post"
      by blast
    from p_load_sound[OF returned(2)] obtain evs where
      evs: "trace s2 = trace s3 @ evs" "list_all (\<lambda>e. \<not> is_shutdown_call e) evs"
      by (auto simp: appended_def)
    have "events_during s s2 = (Log Info ''ATTEMPTING TO RELOAD SKILL'' # pre)
            @ CallShutdown i # (post @ evs)"
      by (simp add: events_during_def pp(1) sL(2) evs(1))
    moreover have "filter is_creator_call (Log Info ''ATTEMPTING TO RELOAD SKILL'' # pre) = []"
      using pp(2) by (simp add: list_all_iff filter_empty_conv)
    moreover have "filter is_shutdown_call (post @ evs) = []"
      using pp(3) evs(2) by (simp add: list_all_iff filter_empty_conv)
    ultimately show ?thesis by blast
  qed
qed

theorem instance_replacement_amended_witness:
  "cur_instance s_loaded = Some weather \<and> reload_skill weather
   \<and> (\<exists>pre post. events_during s_loaded (snd (reload env0 s_loaded))
                     = pre @ CallShutdown weather # post
         \<and> filter is_creator_call pre = [] \<and> filter is_shutdown_call post = [])
   \<and> filter is_shutdown_call (events_during s0 (snd (load env0 s0))) = []"
proof -
  have i: "cur_instance s_loaded = Some weather" by (simp add: s_loaded_eq)
  have r: "reload_skill weather" by (simp add: weather_def)
  have l: "load env0 s0 = (fst (load env0 s0), snd (load env0 s0))" by simp
  have rl: "reload env0 s_loaded = (fst (reload env0 s_loaded), snd (reload env0 s_loaded))"
    by simp
  note t1 = instance_replacement_amended[where E = env0 and s = s0
      and ?r1.0 = "fst (load env0 s0)" and ?s1.0 = "snd (load env0 s0)",
      THEN conjunct1, rule_format, OF l]
  note t2 = instance_replacement_amended[where E = env0 and s = s_loaded
      and ?r2.0 = "fst (reload env0 s_loaded)" and ?s2.0 = "snd (reload env0 s_loaded)",
      THEN conjunct2, rule_format, of weather, OF conjI[OF i conjI[OF r rl]]]
  show ?thesis by (intro conjI i r t1 t2)
qed

lemma s_unloaded_eq:
  "s_unloaded = s_loaded\<lparr>trace := trace s_loaded @
                   [CallShutdown weather, Log Info ''shut down successfully''],
                 cur_instance := None\<rparr>"
  by (simp add: s_unloaded_def s_loaded_eq unload_def p_execute_instance_shutdown_def LOG_def
      env0_def)

text \<open>
  Claim C9 says that the watcher is armed only when a load succeeds, that no watcher is
  held after \<^verbatim>\<open>unload()\<close>, and that the next load creates a fresh one. With the main
  file missing \<^verbatim>\<open>load()\<close> fails and still arms the watcher; after \<^verbatim>\<open>unload()\<close> of
  the loaded weather skill the watcher is still held; and the following \<^verbatim>\<open>load()\<close>
  starts no watcher.
\<close>

theorem watcher_counterexample:
  "fst (load env_missing s0) = Inr (Some False)
   \<and> p_watchdog (snd (load env_missing s0)) = Some (FileWatcher [Some ''/skills/weather''] True)
   \<and> fst (unload env0 s_loaded) = Inr ()
   \<and> p_watchdog (snd (unload env0 s_loaded)) = Some (FileWatcher [Some ''/skills/weather''] True)
   \<and> fst (load env0 s_unloaded) = Inr (Some True)
   \<and> filter is_watcher_start (events_during s_unloaded (snd (load env0 s_unloaded))) = []"
proof -
  have a: "fst (load env_missing s0) = Inr (Some False)"
    "p_watchdog (snd (load env_missing s0)) = Some (FileWatcher [Some ''/skills/weather''] True)"
    by (simp_all add: example_defs model_defs)
  have b: "fst (unload env0 s_loaded) = Inr ()"
    by (simp add: s_loaded_eq unload_def p_execute_instance_shutdown_def LOG_def env0_def)
  have c: "p_watchdog (snd (unload env0 s_loaded))
             = Some (FileWatcher [Some ''/skills/weather''] True)"
    using s_unloaded_eq by (simp add: s_unloaded_def s_loaded_eq)
  have d: "fst (load env0 s_unloaded) = Inr (Some True)"
    "filter is_watcher_start (events_during s_unloaded (snd (load env0 s_unloaded))) = []"
    by (simp_all add: s_unloaded_eq s_loaded_eq events_during_def example_defs model_defs)
  show ?thesis by (intro conjI a b c d)
qed

text \<open>
  Claim C9, amended. Every \<^verbatim>\<open>load()\<close> that returns, with whatever result, leaves a
  watcher armed: the one already held, or else one it starts. \<^verbatim>\<open>unload()\<close> leaves the
  watcher as it is. \<^verbatim>\<open>reload()\<close> of a live instance that permits it, when it returns,
  has shut the held watcher down and started a new one afterwards.
\<close>

theorem watcher_amended:
  "(load E s = (Inr b1, s1) \<longrightarrow>
      (case p_watchdog s of
         Some w \<Rightarrow> p_watchdog s1 = Some w
                   \<and> filter is_watcher_start (events_during s s1) = []
       | None \<Rightarrow> \<exists>w. p_watchdog s1 = Some w
                   \<and> filter is_watcher_start (events_during s s1) = [WatcherStart w]))
   \<and> (unload E s = (r2, s2) \<longrightarrow> p_watchdog s2 = p_watchdog s)
   \<and> (\<forall>i w. cur_instance s = Some i \<and> reload_skill i \<and> p_watchdog s = Some w
              \<and> reload E s = (Inr b3, s3) \<longrightarrow>
          (\<exists>w' pre mid post.
              events_during s s3 = pre @ WatcherShutdown w # mid @ WatcherStart w' # post
            \<and> p_watchdog s3 = Some w'))"
proof (intro conjI allI impI)
  assume "load E s = (Inr b1, s1)"
  note l = load_as_p_load[OF this]
  let ?sL = "LOG Info ''ATTEMPTING TO LOAD SKILL'' s"
  from p_load_sound[OF l[THEN conjunct1]]
  have w: "case p_watchdog ?sL of
             Some w \<Rightarrow> p_watchdog s1 = Some w
                       \<and> filter is_watcher_start (events_during ?sL s1) = []
           | None \<Rightarrow> \<exists>w. p_watchdog s1 = Some w
                       \<and> filter is_watcher_start (events_during ?sL s1) = [WatcherStart w]"
    and a: "appended (\<lambda>e. \<not> is_shutdown_call e) ?sL s1"
    by simp_all
  from a l obtain evs where evs: "trace s1 = trace s @ Log Info ''ATTEMPTING TO LOAD SKILL'' # evs"
    by (auto simp: appended_def)
  have "filter is_watcher_start (events_during s s1)
          = filter is_watcher_start (events_during ?sL s1)"
    using l by (simp add: events_during_def evs)
  with w l show "case p_watchdog s of
         Some w \<Rightarrow> p_watchdog s1 = Some w
                   \<and> filter is_watcher_start (events_during s s1) = []
       | None \<Rightarrow> \<exists>w. p_watchdog s1 = Some w
                   \<and> filter is_watcher_start (events_during s s1) = [WatcherStart w]"
    by (simp split: option.splits)
next
  assume "unload E s = (r2, s2)"
  then show "p_watchdog s2 = p_watchdog s" by (rule unload_keeps_watcher)
next
  fix i w
  assume h: "cur_instance s = Some i \<and> reload_skill i \<and> p_watchdog s = Some w
              \<and> reload E s = (Inr b3, s3)"
  let ?sL = "LOG Info ''ATTEMPTING TO RELOAD SKILL'' s"
  have sL: "cur_instance ?sL = Some i" "p_watchdog ?sL = Some w"
    "trace ?sL = trace s @ [Log Info ''ATTEMPTING TO RELOAD SKILL'']"
    using h by (simp_all add: LOG_def)
  from h have "and_then (p_unload E ?sL) (\<lambda>_ s. p_load E s) = (Inr b3, s3)"
    by (auto simp: reload_def Let_def LOG_def)
  then show "\<exists>w' pre mid post.
              events_during s s3 = pre @ WatcherShutdown w # mid @ WatcherStart w' # post
            \<and> p_watchdog s3 = Some w'"
  proof (cases rule: and_thenE)
    case (raised e)
    then show ?thesis by simp
  next
    case (returned v s4)
    from p_unload_events[OF sL(1) returned(1)] sL(2) obtain post where
      pp: "trace s4 = trace ?sL @ [WatcherShutdown w] @ CallShutdown i # post"
        "p_watchdog s4 = None"
      by auto
    from p_load_sound[OF returned(2)] pp(2) obtain w' where
      w': "p_watchdog s3 = Some w'"
          "filter is_watcher_start (events_during s4 s3) = [WatcherStart w']"
      and a: "appended (\<lambda>e. \<not> is_shutdown_call e) s4 s3"
      by auto
    from a obtain evs where evs: "trace s3 = trace s4 @ evs"
      by (auto simp: appended_def)
    have "WatcherStart w' \<in> set (filter is_watcher_start evs)"
      using w'(2) by (simp add: events_during_def evs)
    then have "WatcherStart w' \<in> set evs" by simp
    then obtain x y where xy: "evs = x @ WatcherStart w' # y"
      by (auto dest: split_list)
    have "events_during s s3 = [Log Info ''ATTEMPTING TO RELOAD SKILL''] @ WatcherShutdown w
            # (CallShutdown i # post @ x) @ WatcherStart w' # y"
      by (simp add: events_during_def evs pp(1) sL(3) xy)
    with w'(1) show ?thesis by blast
  qed
qed

theorem watcher_amended_witness:
  "fst (load env_missing s0) = Inr (Some False)
   \<and> p_watchdog s0 = None
   \<and> (\<exists>w. p_watchdog (snd (load env_missing s0)) = Some w
            \<and> filter is_watcher_start (events_during s0 (snd (load env_missing s0)))
                = [WatcherStart w])
   \<and> p_watchdog (snd (unload env0 s_loaded)) = p_watchdog s_loaded
   \<and> fst (reload env0 s_loaded) = Inr (Some True)
   \<and> (\<exists>w' pre mid post.
         events_during s_loaded (snd (reload env0 s_loaded))
           = pre @ WatcherShutdown (FileWatcher [Some ''/skills/weather''] True) # mid
             @ WatcherStart w' # post
         \<and> p_watchdog (snd (reload env0 s_loaded)) = Some w')"
proof -
  have a: "fst (load env_missing s0) = Inr (Some False)"
    by (simp add: example_defs model_defs)
  then have l: "load env_missing s0 = (Inr (Some False), snd (load env_missing s0))"
    by (simp add: prod_eq_iff)
  have w0: "p_watchdog s0 = None"
    by (simp add: s0_def SkillLoader_init_def)
  have u: "unload env0 s_loaded = (fst (unload env0 s_loaded), snd (unload env0 s_loaded))"
    by simp
  have r: "fst (reload env0 s_loaded) = Inr (Some True)"
    by (simp add: s_loaded_eq example_defs model_defs)
  then have rl: "reload env0 s_loaded = (Inr (Some True), snd (reload env0 s_loaded))"
    by (simp add: prod_eq_iff)
  have i: "cur_instance s_loaded = Some weather"
    "p_watchdog s_loaded = Some (FileWatcher [Some ''/skills/weather''] True)"
    by (simp_all add: s_loaded_eq)
  have rs: "reload_skill weather" by (simp add: weather_def)
  note t1 = watcher_amended[where E = env_missing and s = s0 and ?b1.0 = "Some False"
      and ?s1.0 = "snd (load env_missing s0)", THEN conjunct1, rule_format, OF l]
  note t2 = watcher_amended[where E = env0 and s = s_loaded
      and ?r2.0 = "fst (unload env0 s_loaded)" and ?s2.0 = "snd (unload env0 s_loaded)",
      THEN conjunct2, THEN conjunct1, rule_format, OF u]
  note t3 = watcher_amended[where E = env0 and s = s_loaded and ?b3.0 = "Some True"
      and ?s3.0 = "snd (reload env0 s_loaded)",
      THEN conjunct2, THEN conjunct2, rule_format, of weather,
      OF conjI[OF i(1) conjI[OF rs conjI[OF i(2) rl]]]]
  from t1 w0 have t1': "\<exists>w. p_watchdog (snd (load env_missing s0)) = Some w
            \<and> filter is_watcher_start (events_during s0 (snd (load env_missing s0)))
                = [WatcherStart w]"
    by simp
  show ?thesis by (intro conjI a w0 t1' t2 r t3)
qed

text \<open>
  Claim C7 at the input where the code departs from it: the weather skill was loaded
  successfully, then its identifier was blacklisted, then \<^verbatim>\<open>load()\<close> is called again.
  The blacklist is read again and neither module execution nor instantiation is
  attempted, but the loaded flag is still true from the first call, so
  \<^verbatim>\<open>_communicate_load_status\<close> takes the success branch, reads \<^verbatim>\<open>self.instance.name\<close>
  with no instance and raises AttributeError: \<^verbatim>\<open>load()\<close> returns nothing and no
  \<^verbatim>\<open>mycroft.skills.loading_failure\<close> message is emitted.
\<close>

theorem blacklisted_after_success_raises:
  "fst (load env0 s0) = Inr (Some True)
   \<and> is_blacklisted env_blacklisted s_loaded
   \<and> fst (load env_blacklisted s_loaded) = Inl AttributeError
   \<and> emitted (events_during s_loaded (snd (load env_blacklisted s_loaded))) = []
   \<and> filter is_exec_module (events_during s_loaded (snd (load env_blacklisted s_loaded))) = []
   \<and> filter is_creator_call (events_during s_loaded (snd (load env_blacklisted s_loaded))) = []
   \<and> p_loaded (snd (load env_blacklisted s_loaded)) = Some True
   \<and> cur_instance (snd (load env_blacklisted s_loaded)) = None"
proof -
  have a: "fst (load env0 s0) = Inr (Some True)"
    by (simp add: load_env0_s0)
  have b: "is_blacklisted env_blacklisted s_loaded"
    by (simp add: s_loaded_eq example_defs is_blacklisted_def skill_id_def truthy_def
        skill_directory_def)
  have c: "load env_blacklisted s_loaded =
      (Inl AttributeError,
       s_loaded\<lparr>trace := trace s_loaded @
                  [Log Info ''ATTEMPTING TO LOAD SKILL'',
                   Log Info ''is blacklisted - it will not be loaded''],
                cur_instance := None, last_loaded := 100\<rparr>)"
    by (simp add: s_loaded_eq example_defs model_defs)
  have d: "p_loaded s_loaded = Some True" by (simp add: s_loaded_eq)
  show ?thesis by (simp add: a b c d events_during_def)
qed

end
